theory Spec2Isabelle
  imports Complex_Main "HOL-Library.Sublist" "HOL-Library.Log_Nat"
begin

section \<open>Python strings\<close>

text \<open>
  A Python \<open>str\<close> is modelled as a \<open>string\<close> whose characters are the code points
  below 256.  On these code points \<open>str.isspace\<close>, \<open>str.strip\<close> and the regular
  expression class \<open>\s\<close> agree on the twelve characters listed in \<open>isspace\<close>.
\<close>

definition isspace :: "char \<Rightarrow> bool" where
  "isspace c = ((of_char c :: nat) \<in> {9, 10, 11, 12, 13, 28, 29, 30, 31, 32, 133, 160})"

definition lstrip :: "string \<Rightarrow> string" where
  "lstrip s = dropWhile isspace s"

definition rstrip :: "string \<Rightarrow> string" where
  "rstrip s = rev (dropWhile isspace (rev s))"

definition strip :: "string \<Rightarrow> string" where
  "strip s = rstrip (lstrip s)"

text \<open>\<open>str.lower\<close> on code points below 256: A-Z and the accented capitals move by 32.\<close>

definition lower_char :: "char \<Rightarrow> char" where
  "lower_char c =
     (let n = (of_char c :: nat)
      in if (65 \<le> n \<and> n \<le> 90) \<or> (192 \<le> n \<and> n \<le> 222 \<and> n \<noteq> 215)
         then char_of (n + 32) else c)"

definition lower :: "string \<Rightarrow> string" where
  "lower s = map lower_char s"

fun join :: "string \<Rightarrow> string list \<Rightarrow> string" where
  "join sep [] = []"
| "join sep [p] = p"
| "join sep (p # q # ps) = p @ sep @ join sep (q # ps)"

definition endswith :: "string \<Rightarrow> string \<Rightarrow> bool" where
  "endswith s suf = suffix suf s"

text \<open>\<open>s.split(sep)\<close> for a one-character separator: one more part than separators.\<close>

fun split_on :: "char \<Rightarrow> string \<Rightarrow> string list" where
  "split_on sep [] = [[]]"
| "split_on sep (c # cs) =
     (if c = sep then [] # split_on sep cs
      else (c # hd (split_on sep cs)) # tl (split_on sep cs))"

text \<open>
  \<open>int(s)\<close> in base 10: surrounding whitespace is dropped, then an optional sign, then
  digits with single underscores allowed between digits.  The whitespace \<open>int\<close> accepts
  is narrower than \<open>isspace\<close>: the separators 28 to 31 are refused.  CPython 3.11, with
  \<open>sys.get_int_max_str_digits()\<close> at its default, refuses a text with more than 4300
  digits (underscores and the sign do not count), and refuses to print an integer of
  more than 4300 digits; both raise \<open>ValueError\<close>.
\<close>

definition max_str_digits :: nat where
  "max_str_digits = 4300"

definition int_space :: "char \<Rightarrow> bool" where
  "int_space c = ((of_char c :: nat) \<in> {9, 10, 11, 12, 13, 32, 133, 160})"

definition isdigit :: "char \<Rightarrow> bool" where
  "isdigit c = (48 \<le> (of_char c :: nat) \<and> (of_char c :: nat) \<le> 57)"

definition digit_val :: "char \<Rightarrow> nat" where
  "digit_val c = of_char c - 48"

fun after_digit :: "nat \<Rightarrow> string \<Rightarrow> nat option" where
  "after_digit acc [] = Some acc"
| "after_digit acc [c] = (if isdigit c then Some (10 * acc + digit_val c) else None)"
| "after_digit acc (c # d # cs) =
     (if isdigit c then after_digit (10 * acc + digit_val c) (d # cs)
      else if c = CHR ''_'' \<and> isdigit d then after_digit (10 * acc + digit_val d) cs
      else None)"

definition int_unsigned :: "string \<Rightarrow> nat option" where
  "int_unsigned s =
     (if max_str_digits < length (filter isdigit s) then None
      else (case s of [] \<Rightarrow> None
            | c # cs \<Rightarrow> if isdigit c then after_digit (digit_val c) cs else None))"

definition py_int :: "string \<Rightarrow> int option" where
  "py_int s =
     (case rev (dropWhile int_space (rev (dropWhile int_space s))) of
        [] \<Rightarrow> None
      | c # cs \<Rightarrow>
          if c = CHR ''-'' then map_option (\<lambda>n. - int n) (int_unsigned cs)
          else if c = CHR ''+'' then map_option int (int_unsigned cs)
          else map_option int (int_unsigned (c # cs)))"

text \<open>The decimal text of an integer, as an f-string prints it.\<close>

fun show_nat :: "nat \<Rightarrow> string" where
  "show_nat n =
     (if n < 10 then [char_of (48 + n)]
      else show_nat (n div 10) @ [char_of (48 + n mod 10)])"

definition show_int :: "int \<Rightarrow> string" where
  "show_int i = (if i < 0 then CHR ''-'' # show_nat (nat (- i)) else show_nat (nat i))"

text \<open>The number a text of decimal digits denotes, read from the left.\<close>

definition decimal_value :: "string \<Rightarrow> nat" where
  "decimal_value s = foldl (\<lambda>acc c. 10 * acc + digit_val c) 0 s"

section \<open>The AI client: unwrapping a fenced JSON block\<close>

text \<open>
  \<open>re.search(r"```json\s*(.*?)\s*```", text, re.DOTALL | re.IGNORECASE)\<close>, as the
  backtracking matcher runs it: start positions from left to right; at a start position
  the label, compared without case; the first \<open>\s*\<close> greedy (longest run first, then
  shorter ones); the group lazy (shortest first, any character since DOTALL is set);
  the second \<open>\s*\<close> greedy; then the closing fence.  The result is group 1 of the first
  match.
\<close>

definition fence :: string where
  "fence = [CHR 0x60, CHR 0x60, CHR 0x60]"

definition fence_label :: string where
  "fence_label = fence @ ''json''"

definition label_here :: "string \<Rightarrow> bool" where
  "label_here s = (length fence_label \<le> length s \<and> lower (take (length fence_label) s) = fence_label)"

text \<open>\<open>\s*```\<close> at the head of \<open>s\<close>: some run of leading whitespace, then the fence.\<close>

definition close_here :: "string \<Rightarrow> bool" where
  "close_here s = list_ex (\<lambda>k. prefix fence (drop k s)) (rev [0..<Suc (length (takeWhile isspace s))])"

text \<open>The lazy group: grow it one character at a time until the rest closes the block.\<close>

fun lazy_body :: "string \<Rightarrow> string \<Rightarrow> string option" where
  "lazy_body acc s =
     (if close_here s then Some (rev acc)
      else (case s of [] \<Rightarrow> None | c # cs \<Rightarrow> lazy_body (c # acc) cs))"

text \<open>The greedy \<open>\s*\<close> after the label: \<open>k\<close> whitespace characters, then fewer.\<close>

fun open_ws :: "nat \<Rightarrow> string \<Rightarrow> string option" where
  "open_ws 0 r = lazy_body [] r"
| "open_ws (Suc k) r =
     (case lazy_body [] (drop (Suc k) r) of Some g \<Rightarrow> Some g | None \<Rightarrow> open_ws k r)"

definition match_here :: "string \<Rightarrow> string option" where
  "match_here s =
     (if label_here s
      then (let r = drop (length fence_label) s in open_ws (length (takeWhile isspace r)) r)
      else None)"

fun re_search :: "string \<Rightarrow> string option" where
  "re_search [] = match_here []"
| "re_search (c # cs) =
     (case match_here (c # cs) of Some g \<Rightarrow> Some g | None \<Rightarrow> re_search cs)"

text \<open>\<open>extract_json_from_gemini_response\<close>; \<open>None\<close> is Python's \<open>None\<close>.\<close>

definition extract_json_from_gemini_response :: "string \<Rightarrow> string option" where
  "extract_json_from_gemini_response text =
     (if text = [] then None
      else (case re_search text of Some g \<Rightarrow> Some (strip g) | None \<Rightarrow> Some (strip text)))"

section \<open>JSON values and Python exceptions\<close>

text \<open>
  What \<open>json.loads\<close> returns: \<open>None\<close>, a \<open>bool\<close>, an \<open>int\<close>, a \<open>str\<close>, a \<open>list\<close> or a
  \<open>dict\<close> with string keys, kept in insertion order.  JSON numbers with a fraction or
  an exponent become Python floats and are left out of this type.  \<open>json.loads\<close> itself
  is library code; the functions below take it as the parameter \<open>loads\<close>, with \<open>None\<close>
  for the \<open>JSONDecodeError\<close> it raises.
\<close>

datatype json =
    JNull
  | JBool bool
  | JInt int
  | JStr string
  | JList "json list"
  | JDict "(string \<times> json) list"

datatype exn =
    AttributeError
  | TypeError
  | KeyError
  | ValueError string
  | JSONDecodeError
  | OverflowError

type_synonym dict = "(string \<times> json) list"

text \<open>\<open>bool(v)\<close>, which \<open>not v\<close> and \<open>v or d\<close> consult.\<close>

fun truthy :: "json \<Rightarrow> bool" where
  "truthy JNull = False"
| "truthy (JBool b) = b"
| "truthy (JInt n) = (n \<noteq> 0)"
| "truthy (JStr s) = (s \<noteq> [])"
| "truthy (JList xs) = (xs \<noteq> [])"
| "truthy (JDict kvs) = (kvs \<noteq> [])"

text \<open>\<open>d.get(k, default)\<close>, \<open>d.get(k)\<close>, \<open>d[k] = v\<close> and \<open>v[k]\<close>.\<close>

definition get_default :: "dict \<Rightarrow> string \<Rightarrow> json \<Rightarrow> json" where
  "get_default kvs k d = (case map_of kvs k of None \<Rightarrow> d | Some v \<Rightarrow> v)"

definition get :: "dict \<Rightarrow> string \<Rightarrow> json" where
  "get kvs k = get_default kvs k JNull"

fun dict_set :: "string \<Rightarrow> json \<Rightarrow> dict \<Rightarrow> dict" where
  "dict_set k v [] = [(k, v)]"
| "dict_set k v ((k', v') # kvs) =
     (if k' = k then (k, v) # kvs else (k', v') # dict_set k v kvs)"

definition subscript :: "json \<Rightarrow> string \<Rightarrow> exn + json" where
  "subscript v k =
     (case v of
        JDict kvs \<Rightarrow> (case map_of kvs k of None \<Rightarrow> Inl KeyError | Some x \<Rightarrow> Inr x)
      | _ \<Rightarrow> Inl TypeError)"

text \<open>Iterating a value: a list gives its items, a string its characters, a dict its keys.\<close>

definition py_iter :: "json \<Rightarrow> exn + json list" where
  "py_iter v =
     (case v of
        JList xs \<Rightarrow> Inr xs
      | JStr s \<Rightarrow> Inr (map (\<lambda>c. JStr [c]) s)
      | JDict kvs \<Rightarrow> Inr (map (\<lambda>kv. JStr (fst kv)) kvs)
      | _ \<Rightarrow> Inl TypeError)"

text \<open>\<open>a == b\<close>: \<open>True\<close> and \<open>False\<close> are the integers 1 and 0; dicts compare without order.\<close>

fun as_int :: "json \<Rightarrow> int option" where
  "as_int (JBool b) = Some (if b then 1 else 0)"
| "as_int (JInt n) = Some n"
| "as_int _ = None"

fun py_eq :: "json \<Rightarrow> json \<Rightarrow> bool"
  and py_eq_list :: "json list \<Rightarrow> json list \<Rightarrow> bool"
  and py_eq_dict :: "dict \<Rightarrow> dict \<Rightarrow> bool" where
  "py_eq JNull b = (b = JNull)"
| "py_eq (JBool x) b = (as_int b = Some (if x then 1 else 0))"
| "py_eq (JInt n) b = (as_int b = Some n)"
| "py_eq (JStr s) b = (b = JStr s)"
| "py_eq (JList xs) b = (case b of JList ys \<Rightarrow> py_eq_list xs ys | _ \<Rightarrow> False)"
| "py_eq (JDict kvs) b =
     (case b of JDict kws \<Rightarrow> length kvs = length kws \<and> py_eq_dict kvs kws | _ \<Rightarrow> False)"
| "py_eq_list [] ys = (ys = [])"
| "py_eq_list (x # xs) ys = (case ys of [] \<Rightarrow> False | y # ys' \<Rightarrow> py_eq x y \<and> py_eq_list xs ys')"
| "py_eq_dict [] kws = True"
| "py_eq_dict (kv # kvs) kws =
     ((case map_of kws (fst kv) of None \<Rightarrow> False | Some w \<Rightarrow> py_eq (snd kv) w)
      \<and> py_eq_dict kvs kws)"

text \<open>\<open>sep.join(v)\<close>: every item the iteration yields must be a string.\<close>

fun strings_of :: "json list \<Rightarrow> exn + string list" where
  "strings_of [] = Inr []"
| "strings_of (x # xs) =
     (case x of
        JStr s \<Rightarrow> (case strings_of xs of Inl e \<Rightarrow> Inl e | Inr ss \<Rightarrow> Inr (s # ss))
      | _ \<Rightarrow> Inl TypeError)"

definition py_join :: "string \<Rightarrow> json \<Rightarrow> exn + string" where
  "py_join sep v =
     (case py_iter v of
        Inl e \<Rightarrow> Inl e
      | Inr xs \<Rightarrow> (case strings_of xs of Inl e \<Rightarrow> Inl e | Inr ss \<Rightarrow> Inr (join sep ss)))"

section \<open>Text extraction\<close>

text \<open>
  The PDF and DOCX readers are libraries.  What they do with an uploaded file is part of
  the input: \<open>PdfReader(file_obj)\<close> raises or gives pages, and \<open>page.extract_text()\<close>
  raises or returns a string or \<open>None\<close>; \<open>DocxDocument(file_obj)\<close> (or reading the
  upload before it) raises or gives the paragraphs' texts.
\<close>

datatype page = PageRaises | PageText "string option"

datatype pdf = PdfRaises | PdfPages "page list"

datatype docx = DocxRaises | DocxParagraphs "string list"

text \<open>
  The \<open>for\<close> loop of \<open>extract_text_from_pdf\<close> inside its \<open>try\<close>: the text gathered so far,
  and whether an exception left the loop.
\<close>

fun pdf_pages_loop :: "string \<Rightarrow> page list \<Rightarrow> string \<times> bool" where
  "pdf_pages_loop text [] = (text, False)"
| "pdf_pages_loop text (PageRaises # ps) = (text, True)"
| "pdf_pages_loop text (PageText t # ps) =
     pdf_pages_loop (text @ (case t of None \<Rightarrow> [] | Some x \<Rightarrow> x)) ps"

text \<open>What a page that does not raise adds: \<open>page.extract_text() or ""\<close>.\<close>

definition page_text :: "page \<Rightarrow> string" where
  "page_text p = (case p of PageText (Some x) \<Rightarrow> x | _ \<Rightarrow> [])"

text \<open>
  The function returns \<open>text.strip()\<close> after the \<open>try\<close> statement whether or not the
  handler ran, so its result is \<open>Inr\<close> on every path.
\<close>

definition extract_text_from_pdf :: "pdf \<Rightarrow> exn + string" where
  "extract_text_from_pdf file_obj =
     (case file_obj of
        PdfRaises \<Rightarrow> Inr (strip [])
      | PdfPages ps \<Rightarrow> Inr (strip (fst (pdf_pages_loop [] ps))))"

definition extract_text_from_docx :: "bool \<Rightarrow> docx \<Rightarrow> exn + string" where
  "extract_text_from_docx docx_available file_obj =
     (if \<not> docx_available then Inr []
      else (case file_obj of
              DocxRaises \<Rightarrow> Inr []
            | DocxParagraphs ts \<Rightarrow>
                Inr (strip (join [CHR 0x0A] (filter (\<lambda>t. t \<noteq> [] \<and> strip t \<noteq> []) ts)))))"

record upload =
  filename :: "string option"
  as_pdf :: pdf
  as_docx :: docx

definition extract_text_smart :: "bool \<Rightarrow> upload \<Rightarrow> exn + string" where
  "extract_text_smart docx_available uploaded_file =
     (let name = lower (case filename uploaded_file of None \<Rightarrow> [] | Some n \<Rightarrow> n)
      in if endswith name ''.pdf'' then extract_text_from_pdf (as_pdf uploaded_file)
         else if endswith name ''.docx''
         then extract_text_from_docx docx_available (as_docx uploaded_file)
         else Inl (ValueError ''Unsupported file type. Please upload a PDF or DOCX.''))"

section \<open>The AI client: the retry loop\<close>

text \<open>
  One call \<open>model.generate_content(prompt, ...)\<close> either raises (also when reading
  \<open>resp.text\<close> raises) or gives a response whose text is a string, or is \<open>None\<close> or
  missing (also when the response itself is falsy).  The prompt text is not modelled:
  \<open>model k\<close> is what call number \<open>k\<close> (from 0) does on the prompt at hand.
\<close>

datatype ai_outcome = AiRaises | AiText "string option"

text \<open>
  The \<open>while\<close> loop of \<open>generate_content_with_gemini\<close>.  The result is the returned value
  (\<open>None\<close> for Python's \<open>None\<close>) and the number of calls made to the model.
\<close>

function gemini_loop ::
  "(string \<Rightarrow> json option) \<Rightarrow> (nat \<Rightarrow> ai_outcome) \<Rightarrow> int \<Rightarrow> nat \<Rightarrow> string option \<times> nat" where
  "gemini_loop loads model retries attempt =
     (if int attempt < retries then
        (case model attempt of
           AiRaises \<Rightarrow>
             (if retries \<le> int (attempt + 1) then (None, attempt + 1)
              else gemini_loop loads model retries (attempt + 1))
         | AiText None \<Rightarrow> gemini_loop loads model retries (attempt + 1)
         | AiText (Some t) \<Rightarrow>
             (if t = [] then gemini_loop loads model retries (attempt + 1)
              else (case loads t of
                      Some v \<Rightarrow> (Some t, attempt + 1)
                    | None \<Rightarrow>
                        (if retries \<le> int (attempt + 1) then (None, attempt + 1)
                         else gemini_loop loads model retries (attempt + 1)))))
      else (None, attempt))"
  by pat_completeness auto
termination
  by (relation "measure (\<lambda>(loads, model, retries, attempt). nat (retries - int attempt))") auto

text \<open>
  An attempt succeeds when the response has a non-empty text that \<open>json.loads\<close> accepts.
\<close>

definition attempt_succeeds :: "(string \<Rightarrow> json option) \<Rightarrow> ai_outcome \<Rightarrow> bool" where
  "attempt_succeeds loads out =
     (case out of AiText (Some t) \<Rightarrow> t \<noteq> [] \<and> loads t \<noteq> None | _ \<Rightarrow> False)"

definition generate_content_with_gemini ::
  "(string \<Rightarrow> json option) \<Rightarrow> (nat \<Rightarrow> ai_outcome) \<Rightarrow> int \<Rightarrow> string option \<times> nat" where
  "generate_content_with_gemini loads model retries = gemini_loop loads model retries 0"

section \<open>Scoring an evaluation\<close>

text \<open>
  \<open>a + b\<close> on the values at hand: integers (and booleans) add, strings and lists
  concatenate, anything else raises \<open>TypeError\<close>.
\<close>

definition py_add :: "json \<Rightarrow> json \<Rightarrow> exn + json" where
  "py_add a b =
     (case (as_int a, as_int b) of
        (Some x, Some y) \<Rightarrow> Inr (JInt (x + y))
      | _ \<Rightarrow>
        (case (a, b) of
           (JStr x, JStr y) \<Rightarrow> Inr (JStr (x @ y))
         | (JList x, JList y) \<Rightarrow> Inr (JList (x @ y))
         | _ \<Rightarrow> Inl TypeError))"

text \<open>
  \<open>n / 3\<close> on an \<open>int\<close> is the binary64 number nearest to the exact quotient, ties to
  the even significand; \<open>OverflowError\<close> when that is out of range.  A double is
  modelled by the rational it denotes.  \<open>ilog2 x\<close> is the exponent of the power of two
  at or below a positive \<open>x\<close>.
\<close>

definition round_half_even :: "rat \<Rightarrow> int" where
  "round_half_even x =
     (let f = \<lfloor>x\<rfloor>; d = x - of_int f
      in if d < 1 / 2 then f else if 1 / 2 < d then f + 1 else if even f then f else f + 1)"

definition ilog2 :: "rat \<Rightarrow> int" where
  "ilog2 x =
     (if 1 \<le> x then int (floorlog 2 (nat \<lfloor>x\<rfloor>)) - 1
      else - int (floorlog 2 (nat (\<lceil>1 / x\<rceil> - 1))))"

definition to_double :: "rat \<Rightarrow> exn + rat" where
  "to_double x =
     (if x = 0 then Inr 0
      else (let e = max (ilog2 \<bar>x\<bar> - 52) (- 1074);
                y = of_int (round_half_even (x / (2 powi e))) * (2 powi e)
            in if 2 ^ 1024 \<le> \<bar>y\<bar> then Inl OverflowError else Inr y))"

definition py_truediv :: "json \<Rightarrow> int \<Rightarrow> exn + rat" where
  "py_truediv a d =
     (case as_int a of None \<Rightarrow> Inl TypeError | Some n \<Rightarrow> to_double (of_int n / of_int d))"

text \<open>
  Lines 286 and 287 of \<open>submit_answer\<close>: the three sub-scores, 0 for a missing one,
  added from left to right, divided by 3 and rounded by \<open>round\<close>.
\<close>

definition overall_q_score :: "dict \<Rightarrow> exn + rat" where
  "overall_q_score evaluation =
     (case py_add (get_default evaluation ''technicalScore'' (JInt 0))
                  (get_default evaluation ''communicationScore'' (JInt 0)) of
        Inl e \<Rightarrow> Inl e
      | Inr s1 \<Rightarrow>
          (case py_add s1 (get_default evaluation ''relevanceScore'' (JInt 0)) of
             Inl e \<Rightarrow> Inl e
           | Inr s2 \<Rightarrow> py_truediv s2 3))"

definition with_score :: "dict \<Rightarrow> exn + dict" where
  "with_score evaluation =
     (case overall_q_score evaluation of
        Inl e \<Rightarrow> Inl e
      | Inr q \<Rightarrow> Inr (dict_set ''score'' (JInt (round_half_even q)) evaluation))"

section \<open>The session store\<close>

text \<open>
  A session is the dict that \<open>get_or_create_session\<close> builds.  Its five keys are never
  removed, so they are fields here; \<open>interview_assessment\<close> is a key that only
  \<open>get_assessment\<close> adds, and \<open>None\<close> in that field says that the dict has no such key.
  In the other fields \<open>JNull\<close> and \<open>None\<close> stand for Python's \<open>None\<close>.
\<close>

record session =
  candidate_profile :: json
  interview_questions :: json
  interview_responses :: "json list"
  interview_start_time :: "string option"
  interview_end_time :: "string option"
  interview_assessment :: "json option"

type_synonym sessions = "string \<rightharpoonup> session"

definition new_session :: session where
  "new_session =
     \<lparr> candidate_profile = JNull,
       interview_questions = JList [],
       interview_responses = [],
       interview_start_time = None,
       interview_end_time = None,
       interview_assessment = None \<rparr>"

text \<open>The returned session is the one now stored under \<open>session_id\<close>.\<close>

definition get_or_create_session :: "string \<Rightarrow> sessions \<Rightarrow> session \<times> sessions" where
  "get_or_create_session session_id sessions =
     (case sessions session_id of
        None \<Rightarrow> (new_session, sessions(session_id \<mapsto> new_session))
      | Some s \<Rightarrow> (s, sessions))"

section \<open>The request handlers\<close>

text \<open>
  A handler returns a status code with a JSON body, or lets an exception escape
  (\<open>Unhandled\<close>).  A handler's outcome is the reply, the session store afterwards and the
  number of calls made to the model.  \<open>Unexpected e\<close> is the body
  \<open>{"error": "An unexpected error occurred: " + str(e)}\<close>.
\<close>

datatype body =
    ErrorMsg string
  | Unexpected exn
  | ResumeOk json string
  | QuestionsOk json
  | AnswerOk json
  | AssessmentOk json

datatype reply = Reply nat body | Unhandled exn

record outcome =
  reply :: reply
  store :: sessions
  ai_calls :: nat

definition finish :: "reply \<Rightarrow> sessions \<Rightarrow> nat \<Rightarrow> outcome" where
  "finish r st n = \<lparr> reply = r, store = st, ai_calls = n \<rparr>"

subsection \<open>Resume intake\<close>

text \<open>Lines 210 to 214: \<open>key_skills\<close> is made a list.\<close>

definition normalize_key_skills :: "dict \<Rightarrow> dict" where
  "normalize_key_skills profile =
     (case get profile ''key_skills'' of
        JStr ks \<Rightarrow>
          dict_set ''key_skills''
            (JList (map (\<lambda>s. JStr (strip s)) (filter (\<lambda>s. strip s \<noteq> []) (split_on CHR '','' ks))))
            profile
      | JList xs \<Rightarrow> profile
      | _ \<Rightarrow> dict_set ''key_skills'' (JList []) profile)"

record resume_request =
  session_header :: "string option"
  resume :: "upload option"

text \<open>
  \<open>fresh_id\<close> is the text of \<open>uuid.uuid4()\<close>, used when the request has no
  \<open>X-User-Session-Id\<close> header.
\<close>

definition upload_resume ::
  "(string \<Rightarrow> json option) \<Rightarrow> bool \<Rightarrow> string \<Rightarrow> (nat \<Rightarrow> ai_outcome) \<Rightarrow>
   resume_request \<Rightarrow> sessions \<Rightarrow> outcome" where
  "upload_resume loads docx_available fresh_id model req sessions =
     (let session_id = (case session_header req of None \<Rightarrow> fresh_id | Some h \<Rightarrow> h);
          (session, st) = get_or_create_session session_id sessions
      in case resume req of
           None \<Rightarrow> finish (Reply 400 (ErrorMsg ''No resume file provided'')) st 0
         | Some file \<Rightarrow>
             if filename file = None \<or> filename file = Some []
             then finish (Reply 400 (ErrorMsg ''No selected file'')) st 0
             else (case extract_text_smart docx_available file of
                     Inl (ValueError m) \<Rightarrow> finish (Reply 400 (ErrorMsg m)) st 0
                   | Inl e \<Rightarrow>
                       finish (Reply 400 (ErrorMsg ''Failed to read the file. Try a PDF or DOCX.'')) st 0
                   | Inr resume_content \<Rightarrow>
                       if resume_content = []
                       then finish (Reply 400 (ErrorMsg
                              ''Could not extract text. Ensure the PDF/DOCX contains selectable text.'')) st 0
                       else (case generate_content_with_gemini loads model 3 of
                               (None, n) \<Rightarrow>
                                 finish (Reply 500 (ErrorMsg
                                   ''AI failed to parse resume or returned empty response.'')) st n
                             | (Some ai_text, n) \<Rightarrow>
                                 if ai_text = []
                                 then finish (Reply 500 (ErrorMsg
                                        ''AI failed to parse resume or returned empty response.'')) st n
                                 else (case extract_json_from_gemini_response ai_text of
                                         None \<Rightarrow> finish (Reply 500 (Unexpected (ValueError
                                           ''Failed to extract JSON from Gemini response for resume analysis.''))) st n
                                       | Some cleaned \<Rightarrow>
                                           if cleaned = []
                                           then finish (Reply 500 (Unexpected (ValueError
                                             ''Failed to extract JSON from Gemini response for resume analysis.''))) st n
                                           else (case loads cleaned of
                                                   None \<Rightarrow> finish (Reply 500 (Unexpected JSONDecodeError)) st n
                                                 | Some (JDict kvs) \<Rightarrow>
                                                     (let profile = JDict (normalize_key_skills kvs)
                                                      in finish (Reply 200 (ResumeOk profile session_id))
                                                           (st(session_id \<mapsto> session\<lparr>candidate_profile := profile\<rparr>)) n)
                                                 | Some v \<Rightarrow>
                                                     finish (Reply 500 (Unexpected AttributeError)) st n)))))"

subsection \<open>Interview setup\<close>

text \<open>
  \<open>json_body\<close> is what \<open>request.get_json(silent=True)\<close> returns: \<open>None\<close> when the body is
  absent or not JSON.  \<open>now\<close> is the text of \<open>datetime.now().isoformat()\<close>.
\<close>

record json_request =
  session_id_header :: "string option"
  json_body :: "json option"

definition request_data :: "json_request \<Rightarrow> json" where
  "request_data req =
     (case json_body req of None \<Rightarrow> JDict [] | Some d \<Rightarrow> if truthy d then d else JDict [])"

text \<open>
  The guard \<open>if not session_id or session_id not in sessions\<close> and the lookup
  \<open>sessions[session_id]\<close> after it: \<open>None\<close> when the guard rejects the request.
\<close>

definition lookup_session :: "string option \<Rightarrow> sessions \<Rightarrow> (string \<times> session) option" where
  "lookup_session hdr sessions =
     (case hdr of
        None \<Rightarrow> None
      | Some sid \<Rightarrow>
          if sid = [] then None
          else (case sessions sid of None \<Rightarrow> None | Some s \<Rightarrow> Some (sid, s)))"

definition bad_session :: reply where
  "bad_session = Reply 400 (ErrorMsg ''Invalid or missing session ID'')"

text \<open>
  \<open>json.loads(extract_json_from_gemini_response(ai_text))\<close>: \<open>json.loads(None)\<close> raises
  \<open>TypeError\<close>.
\<close>

definition loads_extracted :: "(string \<Rightarrow> json option) \<Rightarrow> string \<Rightarrow> exn + json" where
  "loads_extracted loads ai_text =
     (case extract_json_from_gemini_response ai_text of
        None \<Rightarrow> Inl TypeError
      | Some cleaned \<Rightarrow> (case loads cleaned of None \<Rightarrow> Inl JSONDecodeError | Some v \<Rightarrow> Inr v))"

definition setup_interview ::
  "(string \<Rightarrow> json option) \<Rightarrow> string \<Rightarrow> (nat \<Rightarrow> ai_outcome) \<Rightarrow>
   json_request \<Rightarrow> sessions \<Rightarrow> outcome" where
  "setup_interview loads now model req sessions =
     (case lookup_session (session_id_header req) sessions of
        None \<Rightarrow> finish bad_session sessions 0
      | Some (session_id, session) \<Rightarrow>
         (case request_data req of
              JDict data \<Rightarrow>
                (let position_role = get data ''position_role''
                 in if \<not> truthy position_role \<or> \<not> truthy (candidate_profile session)
                    then finish (Reply 400 (ErrorMsg
                           ''Position role and candidate profile are required'')) sessions 0
                    else (case candidate_profile session of
                            JDict profile \<Rightarrow>
                              (let profile' = dict_set ''position'' position_role profile;
                                   session1 = session\<lparr>candidate_profile := JDict profile'\<rparr>;
                                   st1 = sessions(session_id \<mapsto> session1)
                               in case py_join '', '' (get_default profile' ''key_skills'' (JList [])) of
                                    Inl e \<Rightarrow> finish (Unhandled e) st1 0
                                  | Inr skills \<Rightarrow>
                                      (case generate_content_with_gemini loads model 3 of
                                         (None, n) \<Rightarrow>
                                           finish (Reply 500 (ErrorMsg ''AI failed to generate questions.'')) st1 n
                                       | (Some ai_text, n) \<Rightarrow>
                                           if ai_text = []
                                           then finish (Reply 500 (ErrorMsg
                                                  ''AI failed to generate questions.'')) st1 n
                                           else (case loads_extracted loads ai_text of
                                                   Inl e \<Rightarrow> finish (Reply 500 (Unexpected e)) st1 n
                                                 | Inr questions \<Rightarrow>
                                                     finish (Reply 200 (QuestionsOk questions))
                                                       (sessions(session_id \<mapsto>
                                                          session1\<lparr>interview_questions := questions,
                                                                   interview_responses := [],
                                                                   interview_start_time := Some now\<rparr>)) n)))
                          | other \<Rightarrow> finish (Unhandled TypeError) sessions 0))
            | other \<Rightarrow> finish (Unhandled AttributeError) sessions 0))"

subsection \<open>Answer submission\<close>

text \<open>
  \<open>next((q for q in questions if q.get("id") == question_id), None)\<close>: the first
  matching item; an item without a \<open>get\<close> method raises when the scan reaches it.
\<close>

fun find_question :: "json \<Rightarrow> json list \<Rightarrow> exn + json option" where
  "find_question question_id [] = Inr None"
| "find_question question_id (q # qs) =
     (case q of
        JDict kvs \<Rightarrow>
          if py_eq (get kvs ''id'') question_id then Inr (Some q)
          else find_question question_id qs
      | _ \<Rightarrow> Inl AttributeError)"

definition evaluate_answer :: "(string \<Rightarrow> json option) \<Rightarrow> string \<Rightarrow> exn + dict" where
  "evaluate_answer loads ai_text =
     (case loads_extracted loads ai_text of
        Inl e \<Rightarrow> Inl e
      | Inr (JDict evaluation) \<Rightarrow> with_score evaluation
      | Inr v \<Rightarrow> Inl AttributeError)"

definition response_record :: "json \<Rightarrow> json \<Rightarrow> json \<Rightarrow> dict \<Rightarrow> dict \<Rightarrow> json" where
  "response_record question_id question_obj response_text data evaluation =
     JDict [(''question_id'', question_id),
            (''question'', (case question_obj of JDict q \<Rightarrow> get q ''question'' | _ \<Rightarrow> JNull)),
            (''tags'', (case question_obj of JDict q \<Rightarrow> get_default q ''tags'' (JList []) | _ \<Rightarrow> JNull)),
            (''response'', response_text),
            (''duration'', get data ''duration''),
            (''evaluation'', JDict evaluation)]"

definition submit_answer ::
  "(string \<Rightarrow> json option) \<Rightarrow> (nat \<Rightarrow> ai_outcome) \<Rightarrow> json_request \<Rightarrow> sessions \<Rightarrow> outcome" where
  "submit_answer loads model req sessions =
     (case lookup_session (session_id_header req) sessions of
        None \<Rightarrow> finish bad_session sessions 0
      | Some (session_id, session) \<Rightarrow>
         (case request_data req of
            JDict data \<Rightarrow>
              (let question_id = get data ''question_id'';
                   response_text = get data ''response_text''
               in if \<not> truthy question_id \<or> \<not> truthy response_text
                  then finish (Reply 400 (ErrorMsg
                         ''Question ID and response text are required'')) sessions 0
                  else (case py_iter (interview_questions session) of
                          Inl e \<Rightarrow> finish (Unhandled e) sessions 0
                        | Inr qs \<Rightarrow>
                            (case find_question question_id qs of
                               Inl e \<Rightarrow> finish (Unhandled e) sessions 0
                             | Inr None \<Rightarrow>
                                 finish (Reply 404 (ErrorMsg ''Question not found'')) sessions 0
                             | Inr (Some question_obj) \<Rightarrow>
                                 if \<not> truthy question_obj
                                 then finish (Reply 404 (ErrorMsg ''Question not found'')) sessions 0
                                 else (case generate_content_with_gemini loads model 3 of
                                         (None, n) \<Rightarrow>
                                           finish (Reply 500 (ErrorMsg
                                             ''AI failed to evaluate response.'')) sessions n
                                       | (Some ai_text, n) \<Rightarrow>
                                           if ai_text = []
                                           then finish (Reply 500 (ErrorMsg
                                                  ''AI failed to evaluate response.'')) sessions n
                                           else (case evaluate_answer loads ai_text of
                                                   Inl e \<Rightarrow> finish (Reply 500 (Unexpected e)) sessions n
                                                 | Inr evaluation \<Rightarrow>
                                                     finish (Reply 200 (AnswerOk (JDict evaluation)))
                                                       (sessions(session_id \<mapsto>
                                                          session\<lparr>interview_responses :=
                                                            interview_responses session @
                                                            [response_record question_id question_obj
                                                               response_text data evaluation]\<rparr>)) n)))))
          | other \<Rightarrow> finish (Unhandled AttributeError) sessions 0))"

subsection \<open>Assessment generation\<close>

text \<open>
  The summary line of a response reads \<open>r["question"]\<close>, \<open>r["response"]\<close> and four
  entries of \<open>r["evaluation"]\<close>, in this order, outside any \<open>try\<close>: the first
  subscript that fails raises.
\<close>

definition evaluation_entry :: "json \<Rightarrow> string \<Rightarrow> exn + json" where
  "evaluation_entry r k =
     (case subscript r ''evaluation'' of Inl e \<Rightarrow> Inl e | Inr ev \<Rightarrow> subscript ev k)"

fun first_error :: "(exn + json) list \<Rightarrow> exn option" where
  "first_error [] = None"
| "first_error (Inl e # xs) = Some e"
| "first_error (Inr v # xs) = first_error xs"

definition summary_error :: "json \<Rightarrow> exn option" where
  "summary_error r =
     first_error [subscript r ''question'', subscript r ''response'',
                  evaluation_entry r ''technicalScore'',
                  evaluation_entry r ''communicationScore'',
                  evaluation_entry r ''relevanceScore'',
                  evaluation_entry r ''feedback'']"

text \<open>
  The body of the \<open>try\<close> in the loop:
  \<open>mm, ss = map(int, (r.get("duration") or "0:0").split(":"))\<close>, then \<open>mm * 60 + ss\<close>.
  \<open>None\<close> when it raises, which the \<open>except\<close> clause passes over.
\<close>

definition duration_seconds :: "json \<Rightarrow> int option" where
  "duration_seconds r =
     (case r of
        JDict kvs \<Rightarrow>
          (let d = get kvs ''duration''
           in case (if truthy d then d else JStr ''0:0'') of
                JStr s \<Rightarrow>
                  (case map py_int (split_on CHR '':'' s) of
                     [Some mm, Some ss] \<Rightarrow> Some (mm * 60 + ss)
                   | _ \<Rightarrow> None)
              | _ \<Rightarrow> None)
      | _ \<Rightarrow> None)"

fun assessment_loop :: "json list \<Rightarrow> int \<Rightarrow> exn + int" where
  "assessment_loop [] secs = Inr secs"
| "assessment_loop (r # rs) secs =
     (case summary_error r of
        Some e \<Rightarrow> Inl e
      | None \<Rightarrow>
          assessment_loop rs (secs + (case duration_seconds r of None \<Rightarrow> 0 | Some d \<Rightarrow> d)))"

text \<open>\<open>f"{i}"\<close> for an \<open>int\<close>: the decimal text, or the \<open>ValueError\<close> of the digit limit.\<close>

definition format_int :: "int \<Rightarrow> exn + string" where
  "format_int i =
     (if max_str_digits < length (show_nat (nat \<bar>i\<bar>))
      then Inl (ValueError
        ''Exceeds the limit (4300 digits) for integer string conversion; use sys.set_int_max_str_digits() to increase the limit'')
      else Inr (show_int i))"

text \<open>
  Lines 322 to 324: \<open>total_minutes\<close>, \<open>total_seconds\<close> and the f-string that prints
  them, outside any \<open>try\<close>.
\<close>

definition interview_duration_str :: "int \<Rightarrow> exn + string" where
  "interview_duration_str secs =
     (case format_int (secs div 60) of
        Inl e \<Rightarrow> Inl e
      | Inr total_minutes \<Rightarrow>
          (case format_int (secs mod 60) of
             Inl e \<Rightarrow> Inl e
           | Inr total_seconds \<Rightarrow> Inr (total_minutes @ ''m '' @ total_seconds @ ''s'')))"

definition get_assessment ::
  "(string \<Rightarrow> json option) \<Rightarrow> string \<Rightarrow> (nat \<Rightarrow> ai_outcome) \<Rightarrow> string option \<Rightarrow> sessions \<Rightarrow> outcome" where
  "get_assessment loads now model hdr sessions =
     (case lookup_session hdr sessions of
        None \<Rightarrow> finish bad_session sessions 0
      | Some (session_id, session) \<Rightarrow>
          if interview_responses session = []
          then finish (Reply 400 (ErrorMsg ''No interview responses to assess'')) sessions 0
          else
            (let session1 = session\<lparr>interview_end_time := Some now\<rparr>;
                 st1 = sessions(session_id \<mapsto> session1)
             in case assessment_loop (interview_responses session) 0 of
                  Inl e \<Rightarrow> finish (Unhandled e) st1 0
                | Inr secs \<Rightarrow>
                    (case interview_duration_str secs of
                       Inl e \<Rightarrow> finish (Unhandled e) st1 0
                     | Inr duration \<Rightarrow>
                    (case generate_content_with_gemini loads model 3 of
                       (None, n) \<Rightarrow>
                         finish (Reply 500 (ErrorMsg ''AI failed to generate assessment.'')) st1 n
                     | (Some ai_text, n) \<Rightarrow>
                         if ai_text = []
                         then finish (Reply 500 (ErrorMsg ''AI failed to generate assessment.'')) st1 n
                         else (case loads_extracted loads ai_text of
                                 Inl e \<Rightarrow> finish (Reply 500 (Unexpected e)) st1 n
                               | Inr (JDict a) \<Rightarrow>
                                   (let assessment =
                                          JDict (dict_set ''interviewDuration'' (JStr duration) a)
                                    in finish (Reply 200 (AssessmentOk assessment))
                                         (sessions(session_id \<mapsto>
                                            session1\<lparr>interview_assessment := Some assessment\<rparr>)) n)
                               | Inr v \<Rightarrow> finish (Reply 500 (Unexpected TypeError)) st1 n)))))"

section \<open>Stubs for concrete runs\<close>

text \<open>
  A JSON parser that rejects every text and one that knows the text \<open>[42]\<close>; a model
  whose every call raises and one that always answers \<open>[42]\<close>.
\<close>

definition loads_nothing :: "string \<Rightarrow> json option" where
  "loads_nothing t = None"

definition loads_42 :: "string \<Rightarrow> json option" where
  "loads_42 t = (if t = ''[42]'' then Some (JList [JInt 42]) else None)"

definition model_raises :: "nat \<Rightarrow> ai_outcome" where
  "model_raises k = AiRaises"

definition model_42 :: "nat \<Rightarrow> ai_outcome" where
  "model_42 k = AiText (Some ''[42]'')"

text \<open>
  A recorded response with a given duration, as \<open>submit_answer\<close> stores it; a parser
  that knows the text \<open>A\<close> as an assessment carrying the model's own duration
  estimate, and a model that always answers \<open>A\<close>.
\<close>

definition response_with_duration :: "json \<Rightarrow> json" where
  "response_with_duration d =
     JDict [(''question_id'', JStr ''q1''), (''question'', JStr ''Why?''), (''tags'', JList []),
            (''response'', JStr ''Because.''), (''duration'', d),
            (''evaluation'', JDict [(''technicalScore'', JInt 80), (''communicationScore'', JInt 70),
                                    (''relevanceScore'', JInt 90), (''feedback'', JStr ''ok''),
                                    (''score'', JInt 80)])]"

definition loads_assessment :: "string \<Rightarrow> json option" where
  "loads_assessment t =
     (if t = ''A''
      then Some (JDict [(''overallScore'', JInt 70), (''interviewDuration'', JStr ''10m 0s''),
                        (''recommendation'', JStr ''hire'')])
      else None)"

definition model_assessment :: "nat \<Rightarrow> ai_outcome" where
  "model_assessment k = AiText (Some ''A'')"

text \<open>
  A parser that knows the text \<open>E\<close> as an evaluation, and a model that always
  answers \<open>E\<close>.
\<close>

definition loads_evaluation :: "string \<Rightarrow> json option" where
  "loads_evaluation t =
     (if t = ''E''
      then Some (JDict [(''technicalScore'', JInt 80), (''communicationScore'', JInt 70),
                        (''relevanceScore'', JInt 90), (''feedback'', JStr ''ok'')])
      else None)"

definition model_evaluation :: "nat \<Rightarrow> ai_outcome" where
  "model_evaluation k = AiText (Some ''E'')"

text \<open>
  A parser that knows the text \<open>P\<close> as a given value, a model that always answers
  \<open>P\<close>, and an uploaded PDF with one page of text.
\<close>

definition loads_profile :: "json \<Rightarrow> string \<Rightarrow> json option" where
  "loads_profile p t = (if t = ''P'' then Some p else None)"

definition model_profile :: "nat \<Rightarrow> ai_outcome" where
  "model_profile k = AiText (Some ''P'')"

definition resume_pdf :: upload where
  "resume_pdf =
     \<lparr>filename = Some ''cv.PDF'', as_pdf = PdfPages [PageText (Some ''Ann knows Python'')],
      as_docx = DocxRaises\<rparr>"

section \<open>Basic facts about the model\<close>

declare lazy_body.simps [simp del] show_nat.simps [simp del] gemini_loop.simps [simp del]

lemma store_finish [simp]: "store (finish r st n) = st"
  and reply_finish [simp]: "reply (finish r st n) = r"
  and calls_finish [simp]: "ai_calls (finish r st n) = n"
  by (simp_all add: finish_def)

lemma get_or_create_session_stored:
  "get_or_create_session sid sessions = (s, st) \<Longrightarrow> st sid = Some s"
  by (auto simp: get_or_create_session_def split: option.splits)

lemma get_or_create_session_keeps:
  "get_or_create_session sid sessions = (s, st) \<Longrightarrow> sessions k = Some x \<Longrightarrow> st k = Some x"
  by (auto simp: get_or_create_session_def split: option.splits)

lemma lookup_session_Some:
  "lookup_session hdr sessions = Some (sid, s) \<longleftrightarrow>
     hdr = Some sid \<and> sid \<noteq> [] \<and> sessions sid = Some s"
  by (auto simp: lookup_session_def split: option.splits)

text \<open>Every handler leaves the store as it was or rewrites one entry of it.\<close>

lemma upload_resume_store:
  assumes "get_or_create_session sid sessions = (s, st)"
    and "sid = (case session_header req of None \<Rightarrow> fid | Some h \<Rightarrow> h)"
  shows "store (upload_resume loads av fid model req sessions) = st
       \<or> (\<exists>s'. store (upload_resume loads av fid model req sessions) = st(sid \<mapsto> s'))"
  unfolding upload_resume_def Let_def assms(2)[symmetric] assms(1)
  by (auto split: option.split sum.split exn.split json.split prod.split)

lemma setup_interview_store:
  "store (setup_interview loads now model req sessions) = sessions
   \<or> (\<exists>sid s s'. sessions sid = Some s
         \<and> store (setup_interview loads now model req sessions) = sessions(sid \<mapsto> s'))"
  unfolding setup_interview_def Let_def
  by (auto simp: lookup_session_Some split: option.split sum.split json.split prod.split)

lemma submit_answer_store:
  "store (submit_answer loads model req sessions) = sessions
   \<or> (\<exists>sid s s'. sessions sid = Some s
         \<and> store (submit_answer loads model req sessions) = sessions(sid \<mapsto> s'))"
  unfolding submit_answer_def Let_def
  by (auto simp: lookup_session_Some split: option.split sum.split json.split prod.split)

lemma get_assessment_store:
  "store (get_assessment loads now model hdr sessions) = sessions
   \<or> (\<exists>sid s s'. sessions sid = Some s
         \<and> store (get_assessment loads now model hdr sessions) = sessions(sid \<mapsto> s'))"
  unfolding get_assessment_def Let_def
  by (auto simp: lookup_session_Some split: option.split sum.split json.split prod.split)

lemma upload_resume_retains:
  assumes "sessions k = Some x"
  shows "store (upload_resume loads av fid model req sessions) k \<noteq> None"
proof -
  define sid where "sid = (case session_header req of None \<Rightarrow> fid | Some h \<Rightarrow> h)"
  obtain s st where g: "get_or_create_session sid sessions = (s, st)"
    by (cases "get_or_create_session sid sessions")
  have "st k = Some x"
    using g assms by (rule get_or_create_session_keeps)
  with upload_resume_store [OF g sid_def, of loads av model] show ?thesis
    by auto
qed

lemma setup_interview_retains:
  "sessions k = Some x \<Longrightarrow> store (setup_interview loads now model req sessions) k \<noteq> None"
  using setup_interview_store [of loads now model req sessions] by auto

lemma submit_answer_retains:
  "sessions k = Some x \<Longrightarrow> store (submit_answer loads model req sessions) k \<noteq> None"
  using submit_answer_store [of loads model req sessions] by auto

lemma get_assessment_retains:
  "sessions k = Some x \<Longrightarrow> store (get_assessment loads now model hdr sessions) k \<noteq> None"
  using get_assessment_store [of loads now model hdr sessions] by auto

text \<open>Reading a dict after \<open>d[k] = v\<close>.\<close>

lemma map_of_dict_set_same [simp]: "map_of (dict_set k v kvs) k = Some v"
  by (induction kvs) auto

lemma map_of_dict_set_other [simp]: "k' \<noteq> k \<Longrightarrow> map_of (dict_set k v kvs) k' = map_of kvs k'"
  by (induction kvs) auto

lemma get_dict_set_same [simp]: "get (dict_set k v kvs) k = v"
  by (simp add: get_def get_default_def)

lemma get_dict_set_other [simp]: "k' \<noteq> k \<Longrightarrow> get (dict_set k v kvs) k' = get kvs k'"
  by (simp add: get_def get_default_def)

section \<open>The session store contract\<close>

text \<open>
  Claim C7, as the code has it.  \<open>get_or_create_session\<close> returns the stored record
  when the identifier is known and leaves the store alone; for an unknown identifier it
  stores and returns a new record whose profile is \<open>None\<close>, whose questions and
  responses are empty, whose start and end times are \<open>None\<close>, and which has no
  \<open>interview_assessment\<close> entry: the key is absent, not present with the value
  \<open>None\<close>.  A second call with the same identifier returns that same record and
  allocates nothing.  No handler ever removes a stored session.
\<close>

theorem get_or_create_session_contract:
  "(\<forall>s. sessions sid = Some s \<longrightarrow> get_or_create_session sid sessions = (s, sessions))
   \<and> (sessions sid = None \<longrightarrow>
        get_or_create_session sid sessions = (new_session, sessions(sid \<mapsto> new_session)))
   \<and> candidate_profile new_session = JNull
   \<and> interview_questions new_session = JList []
   \<and> interview_responses new_session = []
   \<and> interview_start_time new_session = None
   \<and> interview_end_time new_session = None
   \<and> interview_assessment new_session = None
   \<and> get_or_create_session sid (snd (get_or_create_session sid sessions))
       = get_or_create_session sid sessions
   \<and> (\<forall>k x. sessions k = Some x \<longrightarrow>
         snd (get_or_create_session sid sessions) k = Some x
         \<and> store (upload_resume loads av fid model rreq sessions) k \<noteq> None
         \<and> store (setup_interview loads now model jreq sessions) k \<noteq> None
         \<and> store (submit_answer loads model jreq sessions) k \<noteq> None
         \<and> store (get_assessment loads now model hdr sessions) k \<noteq> None)"
proof -
  have once: "get_or_create_session sid (snd (get_or_create_session sid sessions))
      = get_or_create_session sid sessions"
    by (cases "sessions sid") (simp_all add: get_or_create_session_def)
  have keep: "snd (get_or_create_session sid sessions) k = Some x" if "sessions k = Some x" for k x
    using that get_or_create_session_keeps [of sid sessions _ _ k x]
    by (cases "get_or_create_session sid sessions") simp
  show ?thesis
    using once keep upload_resume_retains setup_interview_retains submit_answer_retains
      get_assessment_retains
    by (simp add: get_or_create_session_def new_session_def)
qed

theorem get_or_create_session_contract_witness:
  "get_or_create_session ''s1'' Map.empty = (new_session, [''s1'' \<mapsto> new_session])
   \<and> get_or_create_session ''s1'' [''s1'' \<mapsto> new_session] = (new_session, [''s1'' \<mapsto> new_session])
   \<and> store (get_assessment (\<lambda>t. None) ''t0'' (\<lambda>k. AiRaises) (Some ''s1'') [''s1'' \<mapsto> new_session]) ''s1''
       \<noteq> None"
  using get_or_create_session_contract [of Map.empty "''s1''"]
    get_or_create_session_contract [of "[''s1'' \<mapsto> new_session]" "''s1''" "\<lambda>t. None" _ _ "\<lambda>k. AiRaises" _
      "''t0''" _ "Some ''s1''"]
  by simp

text \<open>
  The claim as stated gives the new record an \<open>interview_assessment\<close> field holding
  null.  In the record the code builds that key does not exist: the field is \<open>None\<close>
  (no such key), not \<open>Some JNull\<close> (the key with Python's \<open>None\<close> as its value).
\<close>

theorem new_session_has_no_assessment_key_counterexample:
  "interview_assessment (fst (get_or_create_session ''s1'' Map.empty)) \<noteq> Some JNull
   \<and> interview_assessment (fst (get_or_create_session ''s1'' Map.empty)) = None"
  by (simp add: get_or_create_session_def new_session_def)

section \<open>PDF text extraction\<close>

lemma strip_all_space: "\<forall>c \<in> set s. isspace c \<Longrightarrow> strip s = []"
proof -
  assume "\<forall>c \<in> set s. isspace c"
  then have "dropWhile isspace s = []" by (induction s) auto
  then show ?thesis by (simp add: strip_def lstrip_def rstrip_def del: dropWhile_eq_Nil_conv)
qed

lemma strip_Nil [simp]: "strip [] = []"
  by (simp add: strip_def lstrip_def rstrip_def)

lemma pdf_pages_loop_all:
  "PageRaises \<notin> set ps \<Longrightarrow> pdf_pages_loop acc ps = (acc @ concat (map page_text ps), False)"
proof (induction ps arbitrary: acc)
  case Nil
  then show ?case by simp
next
  case (Cons p ps)
  then show ?case
    by (cases p) (auto simp: page_text_def split: option.splits)
qed

lemma pdf_pages_loop_stops:
  "PageRaises \<notin> set ps \<Longrightarrow>
     pdf_pages_loop acc (ps @ PageRaises # qs) = (acc @ concat (map page_text ps), True)"
proof (induction ps arbitrary: acc)
  case Nil
  then show ?case by simp
next
  case (Cons p ps)
  then show ?case
    by (cases p) (auto simp: page_text_def split: option.splits)
qed

text \<open>
  Claim C2, as the code has it.  \<open>extract_text_from_pdf\<close> never raises.  When opening the
  document raises, the result is the empty string.  A page whose extraction returns
  \<open>None\<close> or no text adds nothing and the loop goes on, so without a raising page the
  result is the trimmed concatenation of the pages' texts.  When a page raises, the loop
  stops there: the result is the trimmed text of the pages before it, and the pages
  after it are not read.  A document whose pages hold only whitespace or no text gives
  the empty string.
\<close>

theorem extract_text_from_pdf_total:
  "(\<exists>t. extract_text_from_pdf file_obj = Inr t)
   \<and> extract_text_from_pdf PdfRaises = Inr []
   \<and> (PageRaises \<notin> set ps \<longrightarrow>
        extract_text_from_pdf (PdfPages ps) = Inr (strip (concat (map page_text ps)))
        \<and> extract_text_from_pdf (PdfPages (ps @ PageRaises # qs))
            = Inr (strip (concat (map page_text ps))))
   \<and> ((\<forall>p \<in> set ps. \<forall>c \<in> set (page_text p). isspace c) \<longrightarrow>
        extract_text_from_pdf (PdfPages ps) = Inr [])"
proof -
  have total: "\<exists>t. extract_text_from_pdf file_obj = Inr t"
    by (cases file_obj) (simp_all add: extract_text_from_pdf_def)
  have blank: "extract_text_from_pdf (PdfPages ps) = Inr []"
    if "\<forall>p \<in> set ps. \<forall>c \<in> set (page_text p). isspace c"
  proof -
    have "\<forall>c \<in> set (fst (pdf_pages_loop [] ps)). isspace c"
    proof (cases "PageRaises \<in> set ps")
      case False
      with that show ?thesis by (auto simp: pdf_pages_loop_all)
    next
      case True
      then obtain us vs where "ps = us @ PageRaises # vs" "PageRaises \<notin> set us"
        by (auto dest: split_list_first)
      with that show ?thesis by (auto simp: pdf_pages_loop_stops)
    qed
    then show ?thesis
      by (simp add: extract_text_from_pdf_def strip_all_space)
  qed
  show ?thesis
    using total blank
    by (simp add: extract_text_from_pdf_def pdf_pages_loop_all pdf_pages_loop_stops)
qed

theorem extract_text_from_pdf_witness:
  "extract_text_from_pdf (PdfPages [PageText (Some ''ab ''), PageText None, PageText (Some '' cd '')])
     = Inr ''ab  cd''
   \<and> extract_text_from_pdf (PdfPages ([PageText (Some ''ab '')] @ PageRaises # [PageText (Some ''cd'')]))
     = Inr ''ab''
   \<and> extract_text_from_pdf (PdfPages [PageText None, PageText (Some '' '')]) = Inr []"
  using extract_text_from_pdf_total [of _ "[PageText (Some ''ab ''), PageText None, PageText (Some '' cd '')]"]
    extract_text_from_pdf_total [of _ "[PageText (Some ''ab '')]" "[PageText (Some ''cd'')]"]
    extract_text_from_pdf_total [of _ "[PageText None, PageText (Some '' '')]"]
  by (simp add: page_text_def strip_def lstrip_def rstrip_def isspace_def)

text \<open>
  The claim as stated, that an internal failure gives the empty string and that the
  remaining pages are still read, fails when the second of three pages raises: the
  result is the first page's text.
\<close>

theorem extract_text_from_pdf_failure_counterexample:
  "extract_text_from_pdf (PdfPages [PageText (Some ''abc''), PageRaises, PageText (Some ''def'')])
     = Inr ''abc''
   \<and> ''abc'' \<noteq> ([] :: string) \<and> ''abc'' \<noteq> ''abcdef''"
  by (simp add: extract_text_from_pdf_def strip_def lstrip_def rstrip_def isspace_def)

section \<open>The retry loop of the AI client\<close>

lemma gemini_loop_failed_attempt:
  assumes "\<not> attempt_succeeds loads (model a)" "int (Suc a) < retries"
  shows "gemini_loop loads model retries a = gemini_loop loads model retries (Suc a)"
  using assms
  by (subst gemini_loop.simps)
    (auto simp: attempt_succeeds_def split: ai_outcome.splits option.splits)

lemma gemini_loop_last_attempt:
  assumes "\<not> attempt_succeeds loads (model a)" "int a < retries" "retries \<le> int (Suc a)"
  shows "gemini_loop loads model retries a = (None, Suc a)"
proof -
  have stop: "gemini_loop loads model retries (Suc a) = (None, Suc a)"
    using assms(3) by (subst gemini_loop.simps) simp
  show ?thesis
    using assms stop
    by (subst gemini_loop.simps)
      (auto simp: attempt_succeeds_def split: ai_outcome.splits option.splits)
qed

lemma gemini_loop_succeeds:
  assumes "model a = AiText (Some t)" "t \<noteq> []" "loads t \<noteq> None" "int a < retries"
  shows "gemini_loop loads model retries a = (Some t, Suc a)"
  using assms by (subst gemini_loop.simps) auto

lemma gemini_loop_first_success:
  assumes "\<forall>j. a \<le> j \<and> j < k \<longrightarrow> \<not> attempt_succeeds loads (model j)"
    and "model k = AiText (Some t)" "t \<noteq> []" "loads t \<noteq> None" "int k < retries" "a \<le> k"
  shows "gemini_loop loads model retries a = (Some t, Suc k)"
  using assms
proof (induction "k - a" arbitrary: a)
  case 0
  then have "a = k" by simp
  with 0 show ?case by (simp add: gemini_loop_succeeds)
next
  case (Suc n)
  then have lt: "a < k" by simp
  with Suc.prems have "\<not> attempt_succeeds loads (model a)" "int (Suc a) < retries"
    by auto
  then have "gemini_loop loads model retries a = gemini_loop loads model retries (Suc a)"
    by (rule gemini_loop_failed_attempt)
  also have "\<dots> = (Some t, Suc k)"
    using Suc.hyps Suc.prems lt by (intro Suc.hyps(1)) auto
  finally show ?case .
qed

lemma gemini_loop_all_fail:
  assumes "\<forall>j. a \<le> j \<and> int j < retries \<longrightarrow> \<not> attempt_succeeds loads (model j)"
    and "int a \<le> retries"
  shows "gemini_loop loads model retries a = (None, nat retries)"
  using assms
proof (induction "nat (retries - int a)" arbitrary: a)
  case 0
  then have "retries = int a" by simp
  then show ?case by (subst gemini_loop.simps) simp
next
  case (Suc n)
  then have lt: "int a < retries" by simp
  with Suc.prems have nf: "\<not> attempt_succeeds loads (model a)" by simp
  show ?case
  proof (cases "int (Suc a) < retries")
    case True
    with nf have "gemini_loop loads model retries a = gemini_loop loads model retries (Suc a)"
      by (rule gemini_loop_failed_attempt)
    also have "\<dots> = (None, nat retries)"
      using Suc.hyps Suc.prems True by (intro Suc.hyps(1)) auto
    finally show ?thesis .
  next
    case False
    with nf lt have "gemini_loop loads model retries a = (None, Suc a)"
      by (intro gemini_loop_last_attempt) auto
    moreover from False lt have "nat retries = Suc a" by simp
    ultimately show ?thesis by simp
  qed
qed

text \<open>
  Claim C1.  \<open>generate_content_with_gemini\<close> returns the text of the first attempt
  whose response is a non-empty text that parses as JSON, after one call per attempt up
  to that one.  An attempt that raises, returns no text or an empty text, or returns
  text that does not parse is used up and the call is retried.  When none of the
  \<open>retries\<close> attempts succeeds the result is \<open>None\<close> after exactly \<open>retries\<close> calls.
  The function has a value on every path: no exception of an attempt leaves it.
\<close>

theorem generate_content_with_gemini_retries:
  "(model k = AiText (Some t) \<and> t \<noteq> [] \<and> loads t \<noteq> None \<and> int k < retries
      \<and> (\<forall>j < k. \<not> attempt_succeeds loads (model j))
     \<longrightarrow> generate_content_with_gemini loads model retries = (Some t, Suc k))
   \<and> ((\<forall>j. int j < retries \<longrightarrow> \<not> attempt_succeeds loads (model j))
     \<longrightarrow> generate_content_with_gemini loads model retries = (None, nat retries))
   \<and> attempt_succeeds loads (AiText (Some t)) = (t \<noteq> [] \<and> loads t \<noteq> None)
   \<and> \<not> attempt_succeeds loads AiRaises
   \<and> \<not> attempt_succeeds loads (AiText None)"
proof -
  have ok: "generate_content_with_gemini loads model retries = (Some t, Suc k)"
    if "model k = AiText (Some t)" "t \<noteq> []" "loads t \<noteq> None" "int k < retries"
      "\<forall>j < k. \<not> attempt_succeeds loads (model j)"
    unfolding generate_content_with_gemini_def
    using that by (intro gemini_loop_first_success) auto
  have fail: "generate_content_with_gemini loads model retries = (None, nat retries)"
    if all: "\<forall>j. int j < retries \<longrightarrow> \<not> attempt_succeeds loads (model j)"
  proof (cases "0 \<le> retries")
    case True
    with all show ?thesis
      unfolding generate_content_with_gemini_def by (intro gemini_loop_all_fail) auto
  next
    case False
    then show ?thesis
      unfolding generate_content_with_gemini_def by (subst gemini_loop.simps) simp
  qed
  show ?thesis
    using ok fail by (auto simp: attempt_succeeds_def)
qed

theorem generate_content_with_gemini_retries_witness:
  "generate_content_with_gemini (\<lambda>t. if t = ''[1]'' then Some (JList [JInt 1]) else None)
      (\<lambda>k. if k < 2 then AiText (Some ''oops'') else AiText (Some ''[1]'')) 3 = (Some ''[1]'', 3)
   \<and> generate_content_with_gemini (\<lambda>t. if t = ''[1]'' then Some (JList [JInt 1]) else None)
      (\<lambda>k. AiText (Some ''oops'')) 3 = (None, 3)
   \<and> generate_content_with_gemini (\<lambda>t. if t = ''[1]'' then Some (JList [JInt 1]) else None)
      (\<lambda>k. if k = 0 then AiRaises else if k = 1 then AiText (Some []) else AiText None) 3 = (None, 3)"
  using generate_content_with_gemini_retries
      [of "\<lambda>k. if k < 2 then AiText (Some ''oops'') else AiText (Some ''[1]'')" 2 "''[1]''"
          "\<lambda>t. if t = ''[1]'' then Some (JList [JInt 1]) else None" 3]
    generate_content_with_gemini_retries
      [of "\<lambda>k. AiText (Some ''oops'')" _ _ "\<lambda>t. if t = ''[1]'' then Some (JList [JInt 1]) else None" 3]
    generate_content_with_gemini_retries
      [of "\<lambda>k. if k = 0 then AiRaises else if k = 1 then AiText (Some []) else AiText None" _ _
          "\<lambda>t. if t = ''[1]'' then Some (JList [JInt 1]) else None" 3]
  by (simp add: attempt_succeeds_def)

section \<open>Normalising \<open>key_skills\<close> in resume intake\<close>

lemma normalize_key_skills_list: "\<exists>xs. get (normalize_key_skills kvs) ''key_skills'' = JList xs"
  by (cases "get kvs ''key_skills''") (simp_all add: normalize_key_skills_def)

lemma normalize_key_skills_other:
  "k \<noteq> ''key_skills'' \<Longrightarrow> map_of (normalize_key_skills kvs) k = map_of kvs k"
  by (cases "get kvs ''key_skills''") (simp_all add: normalize_key_skills_def)

lemma upload_resume_ok:
  assumes "reply (upload_resume loads av fid model req sessions) = Reply 200 b"
    and "sid = (case session_header req of None \<Rightarrow> fid | Some h \<Rightarrow> h)"
  shows "\<exists>ai_text n cleaned kvs s.
           generate_content_with_gemini loads model 3 = (Some ai_text, n)
         \<and> extract_json_from_gemini_response ai_text = Some cleaned
         \<and> loads cleaned = Some (JDict kvs)
         \<and> store (upload_resume loads av fid model req sessions) sid = Some s
         \<and> candidate_profile s = JDict (normalize_key_skills kvs)
         \<and> b = ResumeOk (JDict (normalize_key_skills kvs)) sid"
proof -
  obtain s0 st where g: "get_or_create_session sid sessions = (s0, st)"
    by (cases "get_or_create_session sid sessions")
  have "reply (upload_resume loads av fid model req sessions) = Reply 200 b \<longrightarrow> ?thesis"
    unfolding upload_resume_def Let_def assms(2)[symmetric] g
    by (simp split: option.split sum.split exn.split json.split prod.split)
  with assms(1) show ?thesis by blast
qed

lemma upload_resume_accepts:
  assumes "get_or_create_session sid sessions = (s0, st)"
    and "sid = (case session_header req of None \<Rightarrow> fid | Some h \<Rightarrow> h)"
    and "resume req = Some file" "filename file = Some name" "name \<noteq> []"
    and "extract_text_smart av file = Inr content" "content \<noteq> []"
    and "generate_content_with_gemini loads model 3 = (Some ai_text, n)"
    and "extract_json_from_gemini_response ai_text = Some cleaned" "cleaned \<noteq> []"
    and "loads cleaned = Some (JDict obj)"
  shows "upload_resume loads av fid model req sessions
       = finish (Reply 200 (ResumeOk (JDict (normalize_key_skills obj)) sid))
           (st(sid \<mapsto> s0\<lparr>candidate_profile := JDict (normalize_key_skills obj)\<rparr>)) n"
proof -
  from assms(9) have "ai_text \<noteq> []"
    by (auto simp: extract_json_from_gemini_response_def)
  then show ?thesis
    unfolding upload_resume_def Let_def assms(2)[symmetric] assms(1)
    using assms(3-11) by simp
qed

lemma upload_resume_accepts_stores:
  assumes a: "resume req = Some doc \<and> filename doc = Some name \<and> name \<noteq> []
        \<and> extract_text_smart av doc = Inr content \<and> content \<noteq> []
        \<and> generate_content_with_gemini loads model 3 = (Some answer, calls)
        \<and> extract_json_from_gemini_response answer = Some unwrapped \<and> unwrapped \<noteq> []
        \<and> loads unwrapped = Some (JDict obj)"
  shows "reply (upload_resume loads av fid model req sessions)
          = Reply 200 (ResumeOk (JDict (normalize_key_skills obj))
              (case session_header req of None \<Rightarrow> fid | Some h \<Rightarrow> h))
        \<and> store (upload_resume loads av fid model req sessions)
              (case session_header req of None \<Rightarrow> fid | Some h \<Rightarrow> h)
          = Some ((fst (get_or_create_session
                     (case session_header req of None \<Rightarrow> fid | Some h \<Rightarrow> h) sessions))
                   \<lparr>candidate_profile := JDict (normalize_key_skills obj)\<rparr>)"
proof -
  define sid where "sid = (case session_header req of None \<Rightarrow> fid | Some h \<Rightarrow> h)"
  obtain s0 st where g: "get_or_create_session sid sessions = (s0, st)"
    by (cases "get_or_create_session sid sessions")
  from a have a1: "resume req = Some doc" and a2: "filename doc = Some name" and a3: "name \<noteq> []"
    and a4: "extract_text_smart av doc = Inr content" and a5: "content \<noteq> []"
    and a6: "generate_content_with_gemini loads model 3 = (Some answer, calls)"
    and a7: "extract_json_from_gemini_response answer = Some unwrapped" and a8: "unwrapped \<noteq> []"
    and a9: "loads unwrapped = Some (JDict obj)"
    by blast+
  have run: "upload_resume loads av fid model req sessions
       = finish (Reply 200 (ResumeOk (JDict (normalize_key_skills obj)) sid))
           (st(sid \<mapsto> s0\<lparr>candidate_profile := JDict (normalize_key_skills obj)\<rparr>)) calls"
    by (rule upload_resume_accepts [OF g sid_def a1 a2 a3 a4 a5 a6 a7 a8 a9])
  show ?thesis
    unfolding sid_def [symmetric] run g by simp
qed

text \<open>
  Claim C4.  When the text unwrapped from the model's answer parses to a JSON object,
  resume intake answers 200 and stores that object, with \<open>key_skills\<close> normalised, as
  the session's profile; and a 200 answer is only ever given that way.  In the stored
  profile \<open>key_skills\<close> is a list whatever the model returned there: a string is split
  on commas into its trimmed non-empty items, a list is kept as it is, and any other
  value, or none, becomes the empty list.  The other entries of the profile are not
  touched.
\<close>

theorem key_skills_normalized:
  "(reply (upload_resume loads av fid model req sessions) = Reply 200 b \<longrightarrow>
      (\<exists>ai_text n cleaned kvs s xs.
           generate_content_with_gemini loads model 3 = (Some ai_text, n)
         \<and> extract_json_from_gemini_response ai_text = Some cleaned
         \<and> loads cleaned = Some (JDict kvs)
         \<and> store (upload_resume loads av fid model req sessions)
              (case session_header req of None \<Rightarrow> fid | Some h \<Rightarrow> h) = Some s
         \<and> candidate_profile s = JDict (normalize_key_skills kvs)
         \<and> get (normalize_key_skills kvs) ''key_skills'' = JList xs))
   \<and> (\<exists>xs. get (normalize_key_skills profile) ''key_skills'' = JList xs)
   \<and> (get profile ''key_skills'' = JStr ks \<longrightarrow>
        get (normalize_key_skills profile) ''key_skills''
          = JList (map JStr (filter (\<lambda>s. s \<noteq> []) (map strip (split_on CHR '','' ks)))))
   \<and> (get profile ''key_skills'' = JList ys \<longrightarrow> normalize_key_skills profile = profile)
   \<and> ((\<forall>s. get profile ''key_skills'' \<noteq> JStr s) \<and> (\<forall>zs. get profile ''key_skills'' \<noteq> JList zs) \<longrightarrow>
        get (normalize_key_skills profile) ''key_skills'' = JList [])
   \<and> (k \<noteq> ''key_skills'' \<longrightarrow> map_of (normalize_key_skills profile) k = map_of profile k)
   \<and> (resume req = Some doc \<and> filename doc = Some name \<and> name \<noteq> []
        \<and> extract_text_smart av doc = Inr content \<and> content \<noteq> []
        \<and> generate_content_with_gemini loads model 3 = (Some answer, calls)
        \<and> extract_json_from_gemini_response answer = Some unwrapped \<and> unwrapped \<noteq> []
        \<and> loads unwrapped = Some (JDict obj) \<longrightarrow>
        reply (upload_resume loads av fid model req sessions)
          = Reply 200 (ResumeOk (JDict (normalize_key_skills obj))
              (case session_header req of None \<Rightarrow> fid | Some h \<Rightarrow> h))
        \<and> store (upload_resume loads av fid model req sessions)
              (case session_header req of None \<Rightarrow> fid | Some h \<Rightarrow> h)
          = Some ((fst (get_or_create_session
                     (case session_header req of None \<Rightarrow> fid | Some h \<Rightarrow> h) sessions))
                   \<lparr>candidate_profile := JDict (normalize_key_skills obj)\<rparr>))"
proof (intro conjI impI)
  assume ok: "reply (upload_resume loads av fid model req sessions) = Reply 200 b"
  from upload_resume_ok [OF ok refl] obtain ai_text n cleaned kvs s where
    *: "generate_content_with_gemini loads model 3 = (Some ai_text, n)"
      "extract_json_from_gemini_response ai_text = Some cleaned"
      "loads cleaned = Some (JDict kvs)"
      "store (upload_resume loads av fid model req sessions)
         (case session_header req of None \<Rightarrow> fid | Some h \<Rightarrow> h) = Some s"
      "candidate_profile s = JDict (normalize_key_skills kvs)"
    by blast
  obtain xs where "get (normalize_key_skills kvs) ''key_skills'' = JList xs"
    using normalize_key_skills_list by blast
  with * show "\<exists>ai_text n cleaned kvs s xs.
           generate_content_with_gemini loads model 3 = (Some ai_text, n)
         \<and> extract_json_from_gemini_response ai_text = Some cleaned
         \<and> loads cleaned = Some (JDict kvs)
         \<and> store (upload_resume loads av fid model req sessions)
              (case session_header req of None \<Rightarrow> fid | Some h \<Rightarrow> h) = Some s
         \<and> candidate_profile s = JDict (normalize_key_skills kvs)
         \<and> get (normalize_key_skills kvs) ''key_skills'' = JList xs"
    by blast
next
  show "\<exists>xs. get (normalize_key_skills profile) ''key_skills'' = JList xs"
    by (rule normalize_key_skills_list)
next
  assume "get profile ''key_skills'' = JStr ks"
  then show "get (normalize_key_skills profile) ''key_skills''
          = JList (map JStr (filter (\<lambda>s. s \<noteq> []) (map strip (split_on CHR '','' ks))))"
    by (simp add: normalize_key_skills_def filter_map comp_def)
next
  assume "get profile ''key_skills'' = JList ys"
  then show "normalize_key_skills profile = profile"
    by (simp add: normalize_key_skills_def)
next
  assume "(\<forall>s. get profile ''key_skills'' \<noteq> JStr s) \<and> (\<forall>zs. get profile ''key_skills'' \<noteq> JList zs)"
  then show "get (normalize_key_skills profile) ''key_skills'' = JList []"
    by (cases "get profile ''key_skills''") (simp_all add: normalize_key_skills_def)
next
  assume "k \<noteq> ''key_skills''"
  then show "map_of (normalize_key_skills profile) k = map_of profile k"
    by (rule normalize_key_skills_other)
next
  assume "resume req = Some doc \<and> filename doc = Some name \<and> name \<noteq> []
        \<and> extract_text_smart av doc = Inr content \<and> content \<noteq> []
        \<and> generate_content_with_gemini loads model 3 = (Some answer, calls)
        \<and> extract_json_from_gemini_response answer = Some unwrapped \<and> unwrapped \<noteq> []
        \<and> loads unwrapped = Some (JDict obj)"
  then show "reply (upload_resume loads av fid model req sessions)
          = Reply 200 (ResumeOk (JDict (normalize_key_skills obj))
              (case session_header req of None \<Rightarrow> fid | Some h \<Rightarrow> h))"
    by (rule upload_resume_accepts_stores [THEN conjunct1])
next
  assume "resume req = Some doc \<and> filename doc = Some name \<and> name \<noteq> []
        \<and> extract_text_smart av doc = Inr content \<and> content \<noteq> []
        \<and> generate_content_with_gemini loads model 3 = (Some answer, calls)
        \<and> extract_json_from_gemini_response answer = Some unwrapped \<and> unwrapped \<noteq> []
        \<and> loads unwrapped = Some (JDict obj)"
  then show "store (upload_resume loads av fid model req sessions)
              (case session_header req of None \<Rightarrow> fid | Some h \<Rightarrow> h)
          = Some ((fst (get_or_create_session
                     (case session_header req of None \<Rightarrow> fid | Some h \<Rightarrow> h) sessions))
                   \<lparr>candidate_profile := JDict (normalize_key_skills obj)\<rparr>)"
    by (rule upload_resume_accepts_stores [THEN conjunct2])
qed

theorem key_skills_normalized_witness:
  "reply (upload_resume
       (loads_profile (JDict [(''name'', JStr ''Ann''), (''key_skills'', JStr ''Python, Go, Rust'')]))
       True ''u1'' model_profile \<lparr>session_header = Some ''s1'', resume = Some resume_pdf\<rparr> Map.empty)
     = Reply 200 (ResumeOk (JDict [(''name'', JStr ''Ann''),
         (''key_skills'', JList [JStr ''Python'', JStr ''Go'', JStr ''Rust''])]) ''s1'')
   \<and> store (upload_resume
       (loads_profile (JDict [(''name'', JStr ''Ann''), (''key_skills'', JStr ''Python, Go, Rust'')]))
       True ''u1'' model_profile \<lparr>session_header = Some ''s1'', resume = Some resume_pdf\<rparr> Map.empty) ''s1''
     = Some (new_session\<lparr>candidate_profile := JDict [(''name'', JStr ''Ann''),
         (''key_skills'', JList [JStr ''Python'', JStr ''Go'', JStr ''Rust''])]\<rparr>)
   \<and> store (upload_resume (loads_profile (JDict [(''key_skills'', JInt 42)]))
       True ''u1'' model_profile \<lparr>session_header = Some ''s1'', resume = Some resume_pdf\<rparr> Map.empty) ''s1''
     = Some (new_session\<lparr>candidate_profile := JDict [(''key_skills'', JList [])]\<rparr>)
   \<and> normalize_key_skills [(''key_skills'', JList [JStr ''Python''])]
     = [(''key_skills'', JList [JStr ''Python''])]
   \<and> map_of (normalize_key_skills [(''name'', JStr ''Ann''), (''key_skills'', JInt 42)]) ''name''
     = Some (JStr ''Ann'')"
proof -
  let ?req = "\<lparr>session_header = Some ''s1'', resume = Some resume_pdf\<rparr>"
  let ?p1 = "[(''name'', JStr ''Ann''), (''key_skills'', JStr ''Python, Go, Rust'')]"
  let ?n1 = "[(''name'', JStr ''Ann''), (''key_skills'', JList [JStr ''Python'', JStr ''Go'', JStr ''Rust''])]"
  let ?p2 = "[(''key_skills'', JInt 42)]"
  have sid: "(case session_header ?req of None \<Rightarrow> ''u1'' | Some h \<Rightarrow> h) = ''s1''"
    and new: "fst (get_or_create_session ''s1'' Map.empty) = new_session"
    by (simp_all add: get_or_create_session_def)
  have ext: "extract_text_smart True resume_pdf = Inr ''Ann knows Python''"
    by code_simp
  have unw: "extract_json_from_gemini_response ''P'' = Some ''P''"
    by code_simp
  have gen: "generate_content_with_gemini (loads_profile p) model_profile 3 = (Some ''P'', 1)" for p
    using gemini_loop_succeeds [of model_profile 0 "''P''" "loads_profile p" 3]
    by (simp add: generate_content_with_gemini_def model_profile_def loads_profile_def)
  have n1: "normalize_key_skills ?p1 = ?n1"
    by code_simp
  have n2: "normalize_key_skills ?p2 = [(''key_skills'', JList [])]"
    by code_simp
  have h: "resume ?req = Some resume_pdf \<and> filename resume_pdf = Some ''cv.PDF'' \<and> ''cv.PDF'' \<noteq> []
        \<and> extract_text_smart True resume_pdf = Inr ''Ann knows Python'' \<and> ''Ann knows Python'' \<noteq> []
        \<and> generate_content_with_gemini (loads_profile (JDict p)) model_profile 3 = (Some ''P'', 1)
        \<and> extract_json_from_gemini_response ''P'' = Some ''P'' \<and> ''P'' \<noteq> []
        \<and> loads_profile (JDict p) ''P'' = Some (JDict p)" for p
    using ext unw gen [of "JDict p"] by (simp add: resume_pdf_def loads_profile_def)
  note A = key_skills_normalized
      [where loads = "loads_profile (JDict ?p1)" and av = True and fid = "''u1''"
         and model = model_profile and req = "?req" and sessions = Map.empty
         and doc = resume_pdf and name = "''cv.PDF''" and content = "''Ann knows Python''"
         and answer = "''P''" and calls = 1 and unwrapped = "''P''" and obj = "?p1",
       THEN conjunct2, THEN conjunct2, THEN conjunct2, THEN conjunct2, THEN conjunct2,
       THEN conjunct2, THEN mp, OF h, unfolded sid new n1]
  note B = key_skills_normalized
      [where loads = "loads_profile (JDict ?p2)" and av = True and fid = "''u1''"
         and model = model_profile and req = "?req" and sessions = Map.empty
         and doc = resume_pdf and name = "''cv.PDF''" and content = "''Ann knows Python''"
         and answer = "''P''" and calls = 1 and unwrapped = "''P''" and obj = "?p2",
       THEN conjunct2, THEN conjunct2, THEN conjunct2, THEN conjunct2, THEN conjunct2,
       THEN conjunct2, THEN mp, OF h, unfolded sid new n2]
  have g2: "get [(''key_skills'', JList [JStr ''Python''])] ''key_skills'' = JList [JStr ''Python'']"
    and g4: "''name'' \<noteq> ''key_skills''"
    by (simp_all add: get_def get_default_def)
  have c: "normalize_key_skills [(''key_skills'', JList [JStr ''Python''])]
      = [(''key_skills'', JList [JStr ''Python''])]"
    using key_skills_normalized
      [where profile = "[(''key_skills'', JList [JStr ''Python''])]" and ys = "[JStr ''Python'']",
       THEN conjunct2, THEN conjunct2, THEN conjunct2, THEN conjunct1, THEN mp, OF g2] .
  have d: "map_of (normalize_key_skills [(''name'', JStr ''Ann''), (''key_skills'', JInt 42)]) ''name''
      = Some (JStr ''Ann'')"
    using key_skills_normalized
      [where profile = "[(''name'', JStr ''Ann''), (''key_skills'', JInt 42)]" and k = "''name''",
       THEN conjunct2, THEN conjunct2, THEN conjunct2, THEN conjunct2, THEN conjunct2,
       THEN conjunct1, THEN mp, OF g4]
    by simp
  from A [THEN conjunct1] A [THEN conjunct2] B [THEN conjunct2] c d show ?thesis
    by (intro conjI)
qed

section \<open>Interview setup is not atomic\<close>

text \<open>
  Claim C10.  Take an interview setup call for a stored session whose profile is set,
  with a position role in the request.  (A stored profile is a dict that resume intake
  has given a \<open>key_skills\<close> entry, so it is not empty.)  The profile's \<open>position\<close> is
  then the supplied role in the store the call leaves, whatever happens afterwards.
  Whenever the call answers 500, the store differs from the one before only in that
  entry: questions, responses and start time are as they were.  In particular, when the
  model is reached and every attempt fails, the answer is the 500 error and the
  position stays written.
\<close>

theorem setup_interview_not_atomic:
  assumes "session_id_header req = Some sid" and "sid \<noteq> []" and "sessions sid = Some s"
    and "request_data req = JDict data" and "truthy (get data ''position_role'')"
    and "candidate_profile s = JDict profile" and "profile \<noteq> []"
  shows "(\<exists>s' p. store (setup_interview loads now model req sessions) sid = Some s'
            \<and> candidate_profile s' = JDict p
            \<and> get p ''position'' = get data ''position_role'')
       \<and> (\<forall>b. reply (setup_interview loads now model req sessions) = Reply 500 b \<longrightarrow>
             store (setup_interview loads now model req sessions)
               = sessions(sid \<mapsto> s\<lparr>candidate_profile :=
                    JDict (dict_set ''position'' (get data ''position_role'') profile)\<rparr>))
       \<and> (\<forall>skills n.
             py_join '', '' (get_default (dict_set ''position'' (get data ''position_role'') profile)
                ''key_skills'' (JList [])) = Inr skills
             \<and> generate_content_with_gemini loads model 3 = (None, n) \<longrightarrow>
             reply (setup_interview loads now model req sessions)
               = Reply 500 (ErrorMsg ''AI failed to generate questions.'')
             \<and> ai_calls (setup_interview loads now model req sessions) = n)"
proof -
  have look: "lookup_session (session_id_header req) sessions = Some (sid, s)"
    using assms(1-3) by (simp add: lookup_session_Some)
  show ?thesis
    unfolding setup_interview_def Let_def look
    using assms(4-7)
    by (simp split: sum.split prod.split option.split)
qed

theorem setup_interview_not_atomic_witness:
  "reply (setup_interview (\<lambda>t. None) ''t0'' (\<lambda>k. AiRaises)
       \<lparr>session_id_header = Some ''s1'',
        json_body = Some (JDict [(''position_role'', JStr ''Backend Engineer'')])\<rparr>
       [''s1'' \<mapsto> new_session\<lparr>candidate_profile := JDict [(''key_skills'', JList [JStr ''Go''])]\<rparr>])
     = Reply 500 (ErrorMsg ''AI failed to generate questions.'')
   \<and> store (setup_interview (\<lambda>t. None) ''t0'' (\<lambda>k. AiRaises)
       \<lparr>session_id_header = Some ''s1'',
        json_body = Some (JDict [(''position_role'', JStr ''Backend Engineer'')])\<rparr>
       [''s1'' \<mapsto> new_session\<lparr>candidate_profile := JDict [(''key_skills'', JList [JStr ''Go''])]\<rparr>])
     = [''s1'' \<mapsto> new_session\<lparr>candidate_profile :=
          JDict [(''key_skills'', JList [JStr ''Go'']), (''position'', JStr ''Backend Engineer'')]\<rparr>]"
proof -
  let ?req = "\<lparr>session_id_header = Some ''s1'',
        json_body = Some (JDict [(''position_role'', JStr ''Backend Engineer'')])\<rparr>"
  let ?s = "new_session\<lparr>candidate_profile := JDict [(''key_skills'', JList [JStr ''Go''])]\<rparr>"
  have h: "session_id_header ?req = Some ''s1''" "''s1'' \<noteq> []" "[''s1'' \<mapsto> ?s] ''s1'' = Some ?s"
    "request_data ?req = JDict [(''position_role'', JStr ''Backend Engineer'')]"
    "truthy (get [(''position_role'', JStr ''Backend Engineer'')] ''position_role'')"
    "candidate_profile ?s = JDict [(''key_skills'', JList [JStr ''Go''])]"
    "[(''key_skills'', JList [JStr ''Go''])] \<noteq> []"
    by (simp_all add: request_data_def get_def get_default_def)
  have role: "get [(''position_role'', JStr ''Backend Engineer'')] ''position_role'' = JStr ''Backend Engineer''"
    by (simp add: get_def get_default_def)
  have upd: "dict_set ''position'' (JStr ''Backend Engineer'') [(''key_skills'', JList [JStr ''Go''])]
      = [(''key_skills'', JList [JStr ''Go'']), (''position'', JStr ''Backend Engineer'')]"
    by simp
  have joined: "py_join '', '' (get_default [(''key_skills'', JList [JStr ''Go'']), (''position'', JStr ''Backend Engineer'')]
      ''key_skills'' (JList [])) = Inr ''Go''"
    by (simp add: py_join_def py_iter_def get_default_def)
  have ai: "generate_content_with_gemini (\<lambda>t. None) (\<lambda>k. AiRaises) 3 = (None, 3)"
    by code_simp
  note T = setup_interview_not_atomic
      [where req = "?req" and sid = "''s1''" and sessions = "[''s1'' \<mapsto> ?s]" and s = "?s"
         and data = "[(''position_role'', JStr ''Backend Engineer'')]"
         and profile = "[(''key_skills'', JList [JStr ''Go''])]"
         and loads = "\<lambda>t. None" and now = "''t0''" and model = "\<lambda>k. AiRaises",
       OF h, unfolded role upd]
  from T [THEN conjunct2, THEN conjunct2, rule_format, OF conjI, OF joined ai]
  have r: "reply (setup_interview (\<lambda>t. None) ''t0'' (\<lambda>k. AiRaises) ?req [''s1'' \<mapsto> ?s])
     = Reply 500 (ErrorMsg ''AI failed to generate questions.'')"
    by (rule conjunct1)
  from T [THEN conjunct2, THEN conjunct1, rule_format, OF r]
  have "store (setup_interview (\<lambda>t. None) ''t0'' (\<lambda>k. AiRaises) ?req [''s1'' \<mapsto> ?s])
     = [''s1'' \<mapsto> ?s\<lparr>candidate_profile :=
          JDict [(''key_skills'', JList [JStr ''Go'']), (''position'', JStr ''Backend Engineer'')]\<rparr>]"
    by simp
  with r show ?thesis by simp
qed

section \<open>Resume intake creates the session first\<close>

lemma upload_resume_error_store:
  assumes "get_or_create_session sid sessions = (s, st)"
    and "sid = (case session_header req of None \<Rightarrow> fid | Some h \<Rightarrow> h)"
  shows "reply (upload_resume loads av fid model req sessions) = Reply code b \<longrightarrow> code \<noteq> 200 \<longrightarrow>
         store (upload_resume loads av fid model req sessions) = st"
  unfolding upload_resume_def Let_def assms(2)[symmetric] assms(1)
  by (simp split: option.split sum.split exn.split json.split prod.split)

lemma setup_interview_known_session:
  assumes "st sid = Some s" "sid \<noteq> []"
  shows "reply (setup_interview loads now model \<lparr>session_id_header = Some sid, json_body = jb\<rparr> st)
           \<noteq> bad_session"
proof -
  have look: "lookup_session (Some sid) st = Some (sid, s)"
    using assms by (simp add: lookup_session_Some)
  show ?thesis
    unfolding setup_interview_def Let_def
    by (simp add: look bad_session_def split: json.split sum.split prod.split option.split)
qed

lemma setup_interview_no_profile:
  assumes "st sid = Some s" "sid \<noteq> []" "candidate_profile s = JNull"
    and "request_data \<lparr>session_id_header = Some sid, json_body = jb\<rparr> = JDict data"
  shows "reply (setup_interview loads now model \<lparr>session_id_header = Some sid, json_body = jb\<rparr> st)
           = Reply 400 (ErrorMsg ''Position role and candidate profile are required'')"
proof -
  have look: "lookup_session (Some sid) st = Some (sid, s)"
    using assms by (simp add: lookup_session_Some)
  show ?thesis
    unfolding setup_interview_def Let_def
    using assms(3,4) by (simp add: look)
qed

text \<open>
  What resume intake does for every request.  After the call, failed or not, the store
  holds a session under the identifier of the request (the header's value, or the fresh
  one when there is no header), and a call that does not answer 200 leaves the store
  exactly as \<open>get_or_create_session\<close> made it.  When that identifier is not the empty
  string, a later interview setup with it is not turned away as an invalid session; and
  when the session was new and intake failed, setup with a JSON object (or nothing) as
  its body answers that the position role and the candidate profile are required.
\<close>

theorem upload_resume_creates_session:
  "store (upload_resume loads av fid model req sessions)
      (case session_header req of None \<Rightarrow> fid | Some h \<Rightarrow> h) \<noteq> None
   \<and> (reply (upload_resume loads av fid model req sessions) = Reply code b \<and> code \<noteq> 200 \<longrightarrow>
        store (upload_resume loads av fid model req sessions)
          = snd (get_or_create_session (case session_header req of None \<Rightarrow> fid | Some h \<Rightarrow> h) sessions))
   \<and> ((case session_header req of None \<Rightarrow> fid | Some h \<Rightarrow> h) \<noteq> [] \<longrightarrow>
        reply (setup_interview loads' now model'
                 \<lparr>session_id_header = Some (case session_header req of None \<Rightarrow> fid | Some h \<Rightarrow> h),
                  json_body = jb\<rparr>
                 (store (upload_resume loads av fid model req sessions))) \<noteq> bad_session)
   \<and> ((case session_header req of None \<Rightarrow> fid | Some h \<Rightarrow> h) \<noteq> []
        \<and> sessions (case session_header req of None \<Rightarrow> fid | Some h \<Rightarrow> h) = None
        \<and> reply (upload_resume loads av fid model req sessions) = Reply code b \<and> code \<noteq> 200
        \<and> request_data \<lparr>session_id_header = Some (case session_header req of None \<Rightarrow> fid | Some h \<Rightarrow> h),
                         json_body = jb\<rparr> = JDict data \<longrightarrow>
        reply (setup_interview loads' now model'
                 \<lparr>session_id_header = Some (case session_header req of None \<Rightarrow> fid | Some h \<Rightarrow> h),
                  json_body = jb\<rparr>
                 (store (upload_resume loads av fid model req sessions)))
          = Reply 400 (ErrorMsg ''Position role and candidate profile are required''))"
proof -
  define sid where "sid = (case session_header req of None \<Rightarrow> fid | Some h \<Rightarrow> h)"
  define out where "out = upload_resume loads av fid model req sessions"
  obtain s st where g: "get_or_create_session sid sessions = (s, st)"
    by (cases "get_or_create_session sid sessions")
  have st: "st sid = Some s"
    using g by (rule get_or_create_session_stored)
  have exists: "\<exists>s'. store out sid = Some s'"
    using upload_resume_store [OF g sid_def, of loads av model] st unfolding out_def by auto
  have err: "store out = st" if "reply out = Reply code b" "code \<noteq> 200"
    using upload_resume_error_store [OF g sid_def, of loads av model code b] that
    unfolding out_def by blast
  have known: "reply (setup_interview loads' now model'
                 \<lparr>session_id_header = Some sid, json_body = jb\<rparr> (store out)) \<noteq> bad_session"
    if "sid \<noteq> []"
  proof -
    from exists obtain s' where "store out sid = Some s'" by blast
    then show ?thesis using that by (rule setup_interview_known_session)
  qed
  have fresh: "reply (setup_interview loads' now model'
                 \<lparr>session_id_header = Some sid, json_body = jb\<rparr> (store out))
          = Reply 400 (ErrorMsg ''Position role and candidate profile are required'')"
    if "sid \<noteq> []" "sessions sid = None" "reply out = Reply code b" "code \<noteq> 200"
      "request_data \<lparr>session_id_header = Some sid, json_body = jb\<rparr> = JDict data"
  proof -
    have "s = new_session"
      using g that(2) by (simp add: get_or_create_session_def)
    then have "candidate_profile s = JNull"
      by (simp add: new_session_def)
    moreover have "store out sid = Some s"
      using err [OF that(3,4)] st by simp
    ultimately show ?thesis
      using that(1,5) by (intro setup_interview_no_profile) auto
  qed
  show ?thesis
    using exists err known fresh g
    unfolding sid_def [symmetric] out_def [symmetric]
    by auto
qed

theorem upload_resume_creates_session_witness:
  "store (upload_resume (\<lambda>t. None) True ''u1'' (\<lambda>k. AiRaises)
            \<lparr>session_header = Some ''s1'', resume = None\<rparr> Map.empty) ''s1'' \<noteq> None
   \<and> reply (setup_interview (\<lambda>t. None) ''t0'' (\<lambda>k. AiRaises)
        \<lparr>session_id_header = Some ''s1'', json_body = Some (JDict [(''position_role'', JStr ''Dev'')])\<rparr>
        (store (upload_resume (\<lambda>t. None) True ''u1'' (\<lambda>k. AiRaises)
            \<lparr>session_header = Some ''s1'', resume = None\<rparr> Map.empty)))
     = Reply 400 (ErrorMsg ''Position role and candidate profile are required'')"
proof -
  let ?req = "\<lparr>session_header = Some ''s1'', resume = None\<rparr>"
  let ?jb = "Some (JDict [(''position_role'', JStr ''Dev'')])"
  have sid: "(case session_header ?req of None \<Rightarrow> ''u1'' | Some h \<Rightarrow> h) = ''s1''"
    by simp
  have up: "reply (upload_resume (\<lambda>t. None) True ''u1'' (\<lambda>k. AiRaises) ?req Map.empty)
      = Reply 400 (ErrorMsg ''No resume file provided'')"
    by (simp add: upload_resume_def get_or_create_session_def)
  have data: "request_data \<lparr>session_id_header = Some ''s1'', json_body = ?jb\<rparr>
      = JDict [(''position_role'', JStr ''Dev'')]"
    by (simp add: request_data_def)
  note T = upload_resume_creates_session
      [where loads = "\<lambda>t. None" and av = True and fid = "''u1''" and model = "\<lambda>k. AiRaises"
         and req = "?req" and sessions = Map.empty and code = 400
         and b = "ErrorMsg ''No resume file provided''" and loads' = "\<lambda>t. None" and now = "''t0''"
         and model' = "\<lambda>k. AiRaises" and jb = "?jb" and data = "[(''position_role'', JStr ''Dev'')]",
       unfolded sid]
  have a: "store (upload_resume (\<lambda>t. None) True ''u1'' (\<lambda>k. AiRaises) ?req Map.empty) ''s1'' \<noteq> None"
    using T by (rule conjunct1)
  have b: "reply (setup_interview (\<lambda>t. None) ''t0'' (\<lambda>k. AiRaises)
        \<lparr>session_id_header = Some ''s1'', json_body = ?jb\<rparr>
        (store (upload_resume (\<lambda>t. None) True ''u1'' (\<lambda>k. AiRaises) ?req Map.empty)))
     = Reply 400 (ErrorMsg ''Position role and candidate profile are required'')"
    using T [THEN conjunct2, THEN conjunct2, THEN conjunct2, THEN mp] up data by simp
  from a b show ?thesis by (rule conjI)
qed

text \<open>
  Claim C9 says that the session resume intake creates for the supplied identifier lets
  a later interview setup with that identifier pass the session check.  The code at an
  \<open>X-User-Session-Id\<close> header whose value is empty: intake takes the empty string as
  the identifier and stores a session under it, and interview setup with that same
  identifier is turned away with "Invalid or missing session ID", as answer submission
  and assessment generation are, because their guards begin with \<open>not session_id\<close>.
\<close>

theorem upload_resume_empty_session_id:
  "store (upload_resume loads_nothing True ''u1'' model_raises
            \<lparr>session_header = Some [], resume = None\<rparr> Map.empty) [] = Some new_session
   \<and> reply (setup_interview loads_nothing ''t0'' model_raises
        \<lparr>session_id_header = Some [], json_body = Some (JDict [(''position_role'', JStr ''Dev'')])\<rparr>
        (store (upload_resume loads_nothing True ''u1'' model_raises
            \<lparr>session_header = Some [], resume = None\<rparr> Map.empty)))
     = Reply 400 (ErrorMsg ''Invalid or missing session ID'')
   \<and> reply (submit_answer loads_nothing model_raises
        \<lparr>session_id_header = Some [],
         json_body = Some (JDict [(''question_id'', JStr ''q1''), (''response_text'', JStr ''hello'')])\<rparr>
        (store (upload_resume loads_nothing True ''u1'' model_raises
            \<lparr>session_header = Some [], resume = None\<rparr> Map.empty)))
     = Reply 400 (ErrorMsg ''Invalid or missing session ID'')
   \<and> reply (get_assessment loads_nothing ''t0'' model_raises (Some [])
        (store (upload_resume loads_nothing True ''u1'' model_raises
            \<lparr>session_header = Some [], resume = None\<rparr> Map.empty)))
     = Reply 400 (ErrorMsg ''Invalid or missing session ID'')"
  by (simp add: upload_resume_def get_or_create_session_def setup_interview_def submit_answer_def
      get_assessment_def lookup_session_def bad_session_def)

text \<open>
  Read against the claim: after that intake the session exists under the empty identifier,
  and interview setup does not get as far as the check of the candidate profile.
\<close>

theorem upload_resume_empty_session_id_witness:
  "[] \<in> dom (store (upload_resume loads_nothing True ''u1'' model_raises
            \<lparr>session_header = Some [], resume = None\<rparr> Map.empty))
   \<and> reply (setup_interview loads_nothing ''t0'' model_raises
        \<lparr>session_id_header = Some [], json_body = Some (JDict [(''position_role'', JStr ''Dev'')])\<rparr>
        (store (upload_resume loads_nothing True ''u1'' model_raises
            \<lparr>session_header = Some [], resume = None\<rparr> Map.empty)))
     \<noteq> Reply 400 (ErrorMsg ''Position role and candidate profile are required'')"
  using upload_resume_empty_session_id by (simp add: domIff)

section \<open>Answer submission for an unknown question\<close>

lemma find_question_none:
  "\<forall>q \<in> set qs. \<exists>kvs. q = JDict kvs \<and> \<not> py_eq (get kvs ''id'') question_id \<Longrightarrow>
     find_question question_id qs = Inr None"
  by (induction qs) auto

text \<open>
  Claim C8, as the code has it.  Take an answer submission for a stored session, with a
  question id and a response text in the request, where the session's questions are a
  list of JSON objects none of whose \<open>id\<close> equals the question id.  The answer is 404
  with "Question not found", the store is unchanged (no response is appended) and the
  model is not called.
\<close>

theorem submit_answer_unknown_question:
  assumes "session_id_header req = Some sid" and "sid \<noteq> []" and "sessions sid = Some s"
    and "request_data req = JDict data"
    and "truthy (get data ''question_id'')" and "truthy (get data ''response_text'')"
    and "interview_questions s = JList qs"
    and "\<forall>q \<in> set qs. \<exists>kvs. q = JDict kvs \<and> \<not> py_eq (get kvs ''id'') (get data ''question_id'')"
  shows "reply (submit_answer loads model req sessions) = Reply 404 (ErrorMsg ''Question not found'')
       \<and> store (submit_answer loads model req sessions) = sessions
       \<and> ai_calls (submit_answer loads model req sessions) = 0"
proof -
  have look: "lookup_session (session_id_header req) sessions = Some (sid, s)"
    using assms(1-3) by (simp add: lookup_session_Some)
  have none: "find_question (get data ''question_id'') qs = Inr None"
    using assms(8) by (rule find_question_none)
  show ?thesis
    unfolding submit_answer_def Let_def look
    using assms(4-7) none by (simp add: py_iter_def)
qed

theorem submit_answer_unknown_question_witness:
  "reply (submit_answer (\<lambda>t. None) (\<lambda>k. AiRaises)
       \<lparr>session_id_header = Some ''s1'',
        json_body = Some (JDict [(''question_id'', JStr ''q9''), (''response_text'', JStr ''hello'')])\<rparr>
       [''s1'' \<mapsto> new_session\<lparr>interview_questions := JList [JDict [(''id'', JStr ''q1'')]]\<rparr>])
     = Reply 404 (ErrorMsg ''Question not found'')
   \<and> store (submit_answer (\<lambda>t. None) (\<lambda>k. AiRaises)
       \<lparr>session_id_header = Some ''s1'',
        json_body = Some (JDict [(''question_id'', JStr ''q9''), (''response_text'', JStr ''hello'')])\<rparr>
       [''s1'' \<mapsto> new_session\<lparr>interview_questions := JList [JDict [(''id'', JStr ''q1'')]]\<rparr>])
     = [''s1'' \<mapsto> new_session\<lparr>interview_questions := JList [JDict [(''id'', JStr ''q1'')]]\<rparr>]"
proof -
  let ?data = "[(''question_id'', JStr ''q9''), (''response_text'', JStr ''hello'')]"
  let ?req = "\<lparr>session_id_header = Some ''s1'', json_body = Some (JDict ?data)\<rparr>"
  let ?s = "new_session\<lparr>interview_questions := JList [JDict [(''id'', JStr ''q1'')]]\<rparr>"
  have h: "session_id_header ?req = Some ''s1''" "''s1'' \<noteq> []" "[''s1'' \<mapsto> ?s] ''s1'' = Some ?s"
    "request_data ?req = JDict ?data"
    "truthy (get ?data ''question_id'')" "truthy (get ?data ''response_text'')"
    "interview_questions ?s = JList [JDict [(''id'', JStr ''q1'')]]"
    "\<forall>q \<in> set [JDict [(''id'', JStr ''q1'')]].
        \<exists>kvs. q = JDict kvs \<and> \<not> py_eq (get kvs ''id'') (get ?data ''question_id'')"
    by (simp_all add: request_data_def get_def get_default_def)
  note T = submit_answer_unknown_question
      [where req = "?req" and sid = "''s1''" and sessions = "[''s1'' \<mapsto> ?s]" and s = "?s"
         and data = "?data" and qs = "[JDict [(''id'', JStr ''q1'')]]"
         and loads = "\<lambda>t. None" and model = "\<lambda>k. AiRaises", OF h]
  from T [THEN conjunct1] T [THEN conjunct2, THEN conjunct1] show ?thesis
    by (rule conjI)
qed

text \<open>
  The claim as stated fails when a stored question is not a JSON object.  Interview
  setup stores whatever JSON the model returned, here the list \<open>[42]\<close>; answer
  submission then raises \<open>AttributeError\<close> on \<open>q.get\<close>, outside any \<open>try\<close>, before
  it can answer 404.
\<close>

theorem submit_answer_malformed_question_counterexample:
  "reply (setup_interview loads_42 ''t0'' model_42
       \<lparr>session_id_header = Some ''s1'', json_body = Some (JDict [(''position_role'', JStr ''Dev'')])\<rparr>
       [''s1'' \<mapsto> new_session\<lparr>candidate_profile := JDict [(''key_skills'', JList [])]\<rparr>])
     = Reply 200 (QuestionsOk (JList [JInt 42]))
   \<and> reply (submit_answer loads_nothing model_raises
       \<lparr>session_id_header = Some ''s1'',
        json_body = Some (JDict [(''question_id'', JStr ''q1''), (''response_text'', JStr ''hello'')])\<rparr>
       (store (setup_interview loads_42 ''t0'' model_42
          \<lparr>session_id_header = Some ''s1'', json_body = Some (JDict [(''position_role'', JStr ''Dev'')])\<rparr>
          [''s1'' \<mapsto> new_session\<lparr>candidate_profile := JDict [(''key_skills'', JList [])]\<rparr>])))
     = Unhandled AttributeError"
  by code_simp

section \<open>The interview duration of an assessment\<close>

lemma digit_char:
  assumes "n < 10"
  shows "isdigit (char_of (48 + n))" and "digit_val (char_of (48 + n)) = n"
proof -
  from assms have "(48 + n) mod 256 = 48 + n" by simp
  then have "(of_char (char_of (48 + n) :: char) :: nat) = 48 + n" by simp
  with assms show "isdigit (char_of (48 + n))" and "digit_val (char_of (48 + n)) = n"
    by (simp_all add: isdigit_def digit_val_def)
qed

lemma show_nat_digits: "\<forall>c \<in> set (show_nat n). isdigit c"
proof (induction n rule: show_nat.induct)
  case (1 n)
  show ?case
  proof (cases "n < 10")
    case True
    then show ?thesis by (subst show_nat.simps) (simp add: digit_char)
  next
    case False
    with 1 show ?thesis by (subst show_nat.simps) (simp add: digit_char)
  qed
qed

lemma show_nat_value: "decimal_value (show_nat n) = n"
proof (induction n rule: show_nat.induct)
  case (1 n)
  show ?case
  proof (cases "n < 10")
    case True
    then show ?thesis
      by (subst show_nat.simps) (simp add: decimal_value_def digit_char)
  next
    case False
    with 1 have "decimal_value (show_nat (n div 10)) = n div 10" by simp
    with False show ?thesis
      by (subst show_nat.simps) (simp add: decimal_value_def digit_char)
  qed
qed

lemma show_nat_no_leading_zero: "n \<noteq> 0 \<Longrightarrow> show_nat n \<noteq> [] \<and> hd (show_nat n) \<noteq> CHR ''0''"
proof (induction n rule: show_nat.induct)
  case (1 n)
  show ?case
  proof (cases "n < 10")
    case True
    have "digit_val (CHR ''0'') = 0" by (simp add: digit_val_def)
    with True "1.prems" digit_char(2) [OF True] have "char_of (48 + n) \<noteq> CHR ''0''"
      by metis
    with True show ?thesis by (subst show_nat.simps, subst show_nat.simps) simp
  next
    case False
    then have "n div 10 \<noteq> 0" by simp
    with 1 False have "show_nat (n div 10) \<noteq> [] \<and> hd (show_nat (n div 10)) \<noteq> CHR ''0''" by simp
    with False show ?thesis by (subst show_nat.simps, subst show_nat.simps) simp
  qed
qed

lemma show_nat_short: "n < 100 \<Longrightarrow> length (show_nat n) \<le> 2"
  by (subst show_nat.simps, subst show_nat.simps) simp

lemma split_on_no_sep: "sep \<notin> set a \<Longrightarrow> split_on sep a = [a]"
  by (induction a) auto

lemma split_on_once:
  "sep \<notin> set a \<Longrightarrow> sep \<notin> set b \<Longrightarrow> split_on sep (a @ sep # b) = [a, b]"
  by (induction a) (auto simp: split_on_no_sep)

lemma assessment_loop_sum:
  "assessment_loop rs acc = Inr t \<Longrightarrow>
     t = acc + sum_list (map (\<lambda>r. case duration_seconds r of None \<Rightarrow> 0 | Some d \<Rightarrow> d) rs)"
proof (induction rs arbitrary: acc)
  case Nil
  then show ?case by simp
next
  case (Cons r rs)
  let ?d = "case duration_seconds r of None \<Rightarrow> 0 | Some d \<Rightarrow> d"
  from Cons.prems have "assessment_loop rs (acc + ?d) = Inr t"
    by (simp split: option.splits)
  then have "t = (acc + ?d) + sum_list (map (\<lambda>r. case duration_seconds r of None \<Rightarrow> 0 | Some d \<Rightarrow> d) rs)"
    by (rule Cons.IH)
  then show ?case by simp
qed

lemma duration_seconds_wellformed:
  assumes "get kvs ''duration'' = JStr (m @ CHR '':'' # sec)"
    and "CHR '':'' \<notin> set m" "CHR '':'' \<notin> set sec"
    and "py_int m = Some mm" "py_int sec = Some ss"
  shows "duration_seconds (JDict kvs) = Some (mm * 60 + ss)"
  using assms by (simp add: duration_seconds_def split_on_once)

lemma duration_seconds_malformed:
  assumes "get kvs ''duration'' = JStr d" "d \<noteq> []"
    and "length (split_on CHR '':'' d) \<noteq> 2 \<or> None \<in> set (map py_int (split_on CHR '':'' d))"
  shows "duration_seconds (JDict kvs) = None"
  using assms
  by (auto simp: duration_seconds_def split: list.splits option.splits)

lemma assessment_loop_total:
  "\<forall>r \<in> set rs. summary_error r = None \<Longrightarrow>
     assessment_loop rs acc
       = Inr (acc + sum_list (map (\<lambda>r. case duration_seconds r of None \<Rightarrow> 0 | Some d \<Rightarrow> d) rs))"
  by (induction rs arbitrary: acc) (simp_all add: add.assoc)

lemma interview_duration_str_text:
  "interview_duration_str secs = Inr shown \<Longrightarrow>
     shown = show_int (secs div 60) @ ''m '' @ show_int (secs mod 60) @ ''s''"
  by (auto simp: interview_duration_str_def format_int_def split: sum.splits if_splits)

lemma interview_duration_str_prints:
  assumes "length (show_nat (nat \<bar>secs div 60\<bar>)) \<le> max_str_digits"
  shows "interview_duration_str secs
          = Inr (show_int (secs div 60) @ ''m '' @ show_int (secs mod 60) @ ''s'')"
proof -
  have "nat \<bar>secs mod 60\<bar> < 100" by simp
  then have "length (show_nat (nat \<bar>secs mod 60\<bar>)) \<le> 2" by (rule show_nat_short)
  then have "length (show_nat (nat \<bar>secs mod 60\<bar>)) \<le> max_str_digits"
    by (simp add: max_str_digits_def)
  with assms show ?thesis
    by (simp add: interview_duration_str_def format_int_def)
qed

lemma get_assessment_ok:
  assumes "hdr = Some sid" "sid \<noteq> []" "sessions sid = Some s"
  shows "reply (get_assessment loads now model hdr sessions) = Reply 200 b \<longrightarrow>
     (\<exists>secs ai_text n a d.
         assessment_loop (interview_responses s) 0 = Inr secs
       \<and> interview_duration_str secs = Inr d
       \<and> generate_content_with_gemini loads model 3 = (Some ai_text, n)
       \<and> loads_extracted loads ai_text = Inr (JDict a)
       \<and> b = AssessmentOk (JDict (dict_set ''interviewDuration'' (JStr d) a))
       \<and> store (get_assessment loads now model hdr sessions)
           = sessions(sid \<mapsto> s\<lparr>interview_end_time := Some now,
                interview_assessment := Some (JDict (dict_set ''interviewDuration'' (JStr d) a))\<rparr>))"
proof -
  have look: "lookup_session hdr sessions = Some (sid, s)"
    using assms by (simp add: lookup_session_Some)
  show ?thesis
    unfolding get_assessment_def Let_def look
    by (simp split: sum.split prod.split option.split json.split)
qed

lemma get_assessment_accepts:
  assumes "hdr = Some sid" "sid \<noteq> []" "sessions sid = Some s"
    and "interview_responses s \<noteq> []"
    and "assessment_loop (interview_responses s) 0 = Inr secs"
    and "interview_duration_str secs = Inr dur"
    and "generate_content_with_gemini loads model 3 = (Some answer, calls)"
    and "loads_extracted loads answer = Inr (JDict obj)"
  shows "get_assessment loads now model hdr sessions
       = finish (Reply 200 (AssessmentOk (JDict (dict_set ''interviewDuration'' (JStr dur) obj))))
           (sessions(sid \<mapsto> s\<lparr>interview_end_time := Some now,
               interview_assessment := Some (JDict (dict_set ''interviewDuration'' (JStr dur) obj))\<rparr>))
           calls"
proof -
  have look: "lookup_session hdr sessions = Some (sid, s)"
    using assms(1-3) by (simp add: lookup_session_Some)
  from assms(8) have "answer \<noteq> []"
    by (auto simp: loads_extracted_def extract_json_from_gemini_response_def)
  then show ?thesis
    unfolding get_assessment_def Let_def look
    using assms(4-8) by simp
qed

text \<open>
  Claim C6.  Assessment generation answers 200 exactly along one path: the summary
  lines can be built, the total prints, the model gives an answer and the text
  unwrapped from it parses to a JSON object.  The stored assessment is then that object
  with its \<open>interviewDuration\<close> replaced by the handler's own text: the sum over the
  session's responses of the seconds each duration parses to, a duration that does not
  parse adding nothing, printed as the decimal minutes, \<open>m\<close>, a space, the decimal
  seconds and \<open>s\<close>.  The model's own \<open>interviewDuration\<close> is gone and every other entry
  of the object is as it was.  The decimal text of a number has only digits, no leading
  zero, and denotes that number; a negative number has a minus sign in front.  The text
  prints unless the minutes have more than 4300 digits.  A duration \<open>mm:ss\<close> of two
  integers parses to \<open>mm * 60 + ss\<close>; a non-empty duration string that does not split
  into exactly two parts at the colons, or has a part that is not an integer, does not
  parse.
\<close>

theorem interview_duration_overwritten:
  assumes "hdr = Some sid" and "sid \<noteq> []" and "sessions sid = Some s"
  shows "(reply (get_assessment loads now model hdr sessions) = Reply 200 b \<longrightarrow>
      (\<exists>ai_text n a d.
           generate_content_with_gemini loads model 3 = (Some ai_text, n)
         \<and> loads_extracted loads ai_text = Inr (JDict a)
         \<and> interview_duration_str (\<Sum>r\<leftarrow>interview_responses s. case duration_seconds r of None \<Rightarrow> 0 | Some d \<Rightarrow> d) = Inr d
         \<and> b = AssessmentOk (JDict (dict_set ''interviewDuration'' (JStr d) a))
         \<and> store (get_assessment loads now model hdr sessions)
             = sessions(sid \<mapsto> s\<lparr>interview_end_time := Some now,
                 interview_assessment := Some (JDict (dict_set ''interviewDuration'' (JStr d) a))\<rparr>)
         \<and> (\<forall>v. get (dict_set ''interviewDuration'' v a) ''interviewDuration'' = v)
         \<and> (\<forall>v k. k \<noteq> ''interviewDuration'' \<longrightarrow>
                map_of (dict_set ''interviewDuration'' v a) k = map_of a k)))
   \<and> (interview_responses s \<noteq> []
       \<and> (\<forall>r \<in> set (interview_responses s). summary_error r = None)
       \<and> interview_duration_str (\<Sum>r\<leftarrow>interview_responses s. case duration_seconds r of None \<Rightarrow> 0 | Some d \<Rightarrow> d) = Inr dur
       \<and> generate_content_with_gemini loads model 3 = (Some answer, calls)
       \<and> loads_extracted loads answer = Inr (JDict obj) \<longrightarrow>
       reply (get_assessment loads now model hdr sessions)
           = Reply 200 (AssessmentOk (JDict (dict_set ''interviewDuration'' (JStr dur) obj)))
       \<and> store (get_assessment loads now model hdr sessions)
           = sessions(sid \<mapsto> s\<lparr>interview_end_time := Some now,
               interview_assessment := Some (JDict (dict_set ''interviewDuration'' (JStr dur) obj))\<rparr>))
   \<and> (interview_duration_str secs = Inr shown \<longrightarrow>
        shown = show_int (secs div 60) @ ''m '' @ show_int (secs mod 60) @ ''s'')
   \<and> (length (show_nat (nat \<bar>secs div 60\<bar>)) \<le> max_str_digits \<longrightarrow>
        interview_duration_str secs
          = Inr (show_int (secs div 60) @ ''m '' @ show_int (secs mod 60) @ ''s''))
   \<and> (0 \<le> i \<longrightarrow> show_int i = show_nat (nat i))
   \<and> (i < 0 \<longrightarrow> show_int i = CHR ''-'' # show_nat (nat (- i)))
   \<and> decimal_value (show_nat k) = k
   \<and> (\<forall>c \<in> set (show_nat k). isdigit c)
   \<and> (k \<noteq> 0 \<longrightarrow> show_nat k \<noteq> [] \<and> hd (show_nat k) \<noteq> CHR ''0'')
   \<and> (get kvs ''duration'' = JStr (m @ CHR '':'' # sec) \<and> CHR '':'' \<notin> set m \<and> CHR '':'' \<notin> set sec
         \<and> py_int m = Some mm \<and> py_int sec = Some ss \<longrightarrow>
         duration_seconds (JDict kvs) = Some (mm * 60 + ss))
   \<and> (get kvs' ''duration'' = JStr bad \<and> bad \<noteq> []
         \<and> (length (split_on CHR '':'' bad) \<noteq> 2 \<or> None \<in> set (map py_int (split_on CHR '':'' bad))) \<longrightarrow>
         duration_seconds (JDict kvs') = None)"
proof -
  have bwd: "(\<exists>ai_text n a d.
           generate_content_with_gemini loads model 3 = (Some ai_text, n)
         \<and> loads_extracted loads ai_text = Inr (JDict a)
         \<and> interview_duration_str (\<Sum>r\<leftarrow>interview_responses s. case duration_seconds r of None \<Rightarrow> 0 | Some d \<Rightarrow> d) = Inr d
         \<and> b = AssessmentOk (JDict (dict_set ''interviewDuration'' (JStr d) a))
         \<and> store (get_assessment loads now model hdr sessions)
             = sessions(sid \<mapsto> s\<lparr>interview_end_time := Some now,
                 interview_assessment := Some (JDict (dict_set ''interviewDuration'' (JStr d) a))\<rparr>)
         \<and> (\<forall>v. get (dict_set ''interviewDuration'' v a) ''interviewDuration'' = v)
         \<and> (\<forall>v k. k \<noteq> ''interviewDuration'' \<longrightarrow>
                map_of (dict_set ''interviewDuration'' v a) k = map_of a k))"
    if ok: "reply (get_assessment loads now model hdr sessions) = Reply 200 b"
  proof -
    from get_assessment_ok [where sessions = sessions and sid = sid and s = s and hdr = hdr
        and loads = loads and now = now and model = model and b = b, OF assms(1-3)] ok
    obtain secs ai_text n a d where
      *: "assessment_loop (interview_responses s) 0 = Inr secs"
        "interview_duration_str secs = Inr d"
        "generate_content_with_gemini loads model 3 = (Some ai_text, n)"
        "loads_extracted loads ai_text = Inr (JDict a)"
        "b = AssessmentOk (JDict (dict_set ''interviewDuration'' (JStr d) a))"
        "store (get_assessment loads now model hdr sessions)
             = sessions(sid \<mapsto> s\<lparr>interview_end_time := Some now,
                 interview_assessment := Some (JDict (dict_set ''interviewDuration'' (JStr d) a))\<rparr>)"
      by blast
    have "secs = (\<Sum>r\<leftarrow>interview_responses s. case duration_seconds r of None \<Rightarrow> 0 | Some d \<Rightarrow> d)"
      using assessment_loop_sum [OF *(1)] by simp
    with * show ?thesis
      by (intro exI [of _ ai_text] exI [of _ n] exI [of _ a] exI [of _ d]) simp
  qed
  have fwd: "reply (get_assessment loads now model hdr sessions)
           = Reply 200 (AssessmentOk (JDict (dict_set ''interviewDuration'' (JStr dur) obj)))
       \<and> store (get_assessment loads now model hdr sessions)
           = sessions(sid \<mapsto> s\<lparr>interview_end_time := Some now,
               interview_assessment := Some (JDict (dict_set ''interviewDuration'' (JStr dur) obj))\<rparr>)"
    if h: "interview_responses s \<noteq> []
       \<and> (\<forall>r \<in> set (interview_responses s). summary_error r = None)
       \<and> interview_duration_str (\<Sum>r\<leftarrow>interview_responses s. case duration_seconds r of None \<Rightarrow> 0 | Some d \<Rightarrow> d) = Inr dur
       \<and> generate_content_with_gemini loads model 3 = (Some answer, calls)
       \<and> loads_extracted loads answer = Inr (JDict obj)"
  proof -
    from h have loop: "assessment_loop (interview_responses s) 0
        = Inr (\<Sum>r\<leftarrow>interview_responses s. case duration_seconds r of None \<Rightarrow> 0 | Some d \<Rightarrow> d)"
      by (simp add: assessment_loop_total)
    from h have h1: "interview_responses s \<noteq> []"
      and h3: "interview_duration_str (\<Sum>r\<leftarrow>interview_responses s. case duration_seconds r of None \<Rightarrow> 0 | Some d \<Rightarrow> d) = Inr dur"
      and h4: "generate_content_with_gemini loads model 3 = (Some answer, calls)"
      and h5: "loads_extracted loads answer = Inr (JDict obj)"
      by blast+
    show ?thesis
      unfolding get_assessment_accepts [where sessions = sessions and sid = sid and s = s
          and hdr = hdr and loads = loads and now = now and model = model,
          OF assms(1-3) h1 loop h3 h4 h5]
      by simp
  qed
  have wf: "get kvs ''duration'' = JStr (m @ CHR '':'' # sec) \<and> CHR '':'' \<notin> set m \<and> CHR '':'' \<notin> set sec
         \<and> py_int m = Some mm \<and> py_int sec = Some ss \<longrightarrow>
         duration_seconds (JDict kvs) = Some (mm * 60 + ss)"
    using duration_seconds_wellformed by blast
  have mf: "get kvs' ''duration'' = JStr bad \<and> bad \<noteq> []
         \<and> (length (split_on CHR '':'' bad) \<noteq> 2 \<or> None \<in> set (map py_int (split_on CHR '':'' bad))) \<longrightarrow>
         duration_seconds (JDict kvs') = None"
    using duration_seconds_malformed by blast
  have dec: "(0 \<le> i \<longrightarrow> show_int i = show_nat (nat i))
   \<and> (i < 0 \<longrightarrow> show_int i = CHR ''-'' # show_nat (nat (- i)))
   \<and> decimal_value (show_nat k) = k
   \<and> (\<forall>c \<in> set (show_nat k). isdigit c)
   \<and> (k \<noteq> 0 \<longrightarrow> show_nat k \<noteq> [] \<and> hd (show_nat k) \<noteq> CHR ''0'')"
    using show_nat_value show_nat_digits show_nat_no_leading_zero
    by (simp add: show_int_def)
  show ?thesis
    using bwd fwd interview_duration_str_text [of secs shown] interview_duration_str_prints [of secs]
      dec wf mf
    by (intro conjI impI) blast+
qed

theorem interview_duration_overwritten_witness:
  "reply (get_assessment loads_assessment ''t1'' model_assessment (Some ''s1'')
      [''s1'' \<mapsto> new_session\<lparr>interview_responses :=
         [response_with_duration (JStr ''1:30''), response_with_duration (JStr ''0:45''),
          response_with_duration (JStr ''bad'')]\<rparr>])
   = Reply 200 (AssessmentOk (JDict [(''overallScore'', JInt 70),
          (''interviewDuration'', JStr ''2m 15s''), (''recommendation'', JStr ''hire'')]))
   \<and> store (get_assessment loads_assessment ''t1'' model_assessment (Some ''s1'')
      [''s1'' \<mapsto> new_session\<lparr>interview_responses :=
         [response_with_duration (JStr ''1:30''), response_with_duration (JStr ''0:45''),
          response_with_duration (JStr ''bad'')]\<rparr>])
   = [''s1'' \<mapsto> new_session\<lparr>interview_responses :=
         [response_with_duration (JStr ''1:30''), response_with_duration (JStr ''0:45''),
          response_with_duration (JStr ''bad'')],
        interview_end_time := Some ''t1'',
        interview_assessment := Some (JDict [(''overallScore'', JInt 70),
          (''interviewDuration'', JStr ''2m 15s''), (''recommendation'', JStr ''hire'')])\<rparr>]
   \<and> interview_duration_str 135 = Inr ''2m 15s''
   \<and> duration_seconds (response_with_duration (JStr ''1:30'')) = Some 90
   \<and> duration_seconds (response_with_duration (JStr ''bad'')) = None"
proof -
  let ?rs = "[response_with_duration (JStr ''1:30''), response_with_duration (JStr ''0:45''),
          response_with_duration (JStr ''bad'')]"
  let ?s = "new_session\<lparr>interview_responses := ?rs\<rparr>"
  let ?a = "[(''overallScore'', JInt 70), (''interviewDuration'', JStr ''10m 0s''),
            (''recommendation'', JStr ''hire'')]"
  let ?a' = "[(''overallScore'', JInt 70), (''interviewDuration'', JStr ''2m 15s''),
            (''recommendation'', JStr ''hire'')]"
  have h: "Some ''s1'' = Some ''s1''" "''s1'' \<noteq> []" "[''s1'' \<mapsto> ?s] ''s1'' = Some ?s"
    by simp_all
  have rs: "interview_responses ?s = ?rs"
    by simp
  have summ: "\<forall>r \<in> set ?rs. summary_error r = None"
    by code_simp
  have total: "(\<Sum>r\<leftarrow>?rs. case duration_seconds r of None \<Rightarrow> 0 | Some d \<Rightarrow> d) = 135"
    by code_simp
  have shown: "show_int (135 div 60) @ ''m '' @ show_int (135 mod 60) @ ''s'' = ''2m 15s''"
    by code_simp
  have short: "length (show_nat (nat \<bar>135 div 60\<bar>)) \<le> max_str_digits"
    by code_simp
  have gen: "generate_content_with_gemini loads_assessment model_assessment 3 = (Some ''A'', 1)"
    using gemini_loop_succeeds [of model_assessment 0 "''A''" loads_assessment 3]
    by (simp add: generate_content_with_gemini_def model_assessment_def loads_assessment_def)
  have ext: "loads_extracted loads_assessment ''A'' = Inr (JDict ?a)"
    by code_simp
  have upd: "dict_set ''interviewDuration'' (JStr ''2m 15s'') ?a = ?a'"
    by simp
  note T = interview_duration_overwritten
      [where hdr = "Some ''s1''" and sid = "''s1''" and sessions = "[''s1'' \<mapsto> ?s]" and s = "?s"
         and loads = loads_assessment and now = "''t1''" and model = model_assessment
         and dur = "''2m 15s''" and answer = "''A''" and calls = 1 and obj = "?a" and secs = 135
         and m = "''1''" and sec = "''30''" and mm = 1 and ss = 30 and bad = "''bad''"
         and kvs = "[(''question_id'', JStr ''q1''), (''question'', JStr ''Why?''), (''tags'', JList []),
            (''response'', JStr ''Because.''), (''duration'', JStr ''1:30''),
            (''evaluation'', JDict [(''technicalScore'', JInt 80), (''communicationScore'', JInt 70),
                                    (''relevanceScore'', JInt 90), (''feedback'', JStr ''ok''),
                                    (''score'', JInt 80)])]"
         and kvs' = "[(''question_id'', JStr ''q1''), (''question'', JStr ''Why?''), (''tags'', JList []),
            (''response'', JStr ''Because.''), (''duration'', JStr ''bad''),
            (''evaluation'', JDict [(''technicalScore'', JInt 80), (''communicationScore'', JInt 70),
                                    (''relevanceScore'', JInt 90), (''feedback'', JStr ''ok''),
                                    (''score'', JInt 80)])]",
       OF h, unfolded rs total upd fun_upd_upd]
  have printed: "interview_duration_str 135 = Inr ''2m 15s''"
    using T [THEN conjunct2, THEN conjunct2, THEN conjunct2, THEN conjunct1, THEN mp, OF short]
    unfolding shown .
  have hyp: "?rs \<noteq> []
       \<and> (\<forall>r \<in> set ?rs. summary_error r = None)
       \<and> interview_duration_str 135 = Inr ''2m 15s''
       \<and> generate_content_with_gemini loads_assessment model_assessment 3 = (Some ''A'', 1)
       \<and> loads_extracted loads_assessment ''A'' = Inr (JDict ?a)"
    using summ printed gen ext by simp
  note run = T [THEN conjunct2, THEN conjunct1, THEN mp, OF hyp]
  have p1: "py_int ''1'' = Some 1" "py_int ''30'' = Some 30"
    by code_simp+
  have w: "duration_seconds (response_with_duration (JStr ''1:30'')) = Some 90"
    using T [THEN conjunct2, THEN conjunct2, THEN conjunct2, THEN conjunct2, THEN conjunct2,
        THEN conjunct2, THEN conjunct2, THEN conjunct2, THEN conjunct2, THEN conjunct1] p1
    by (simp add: response_with_duration_def get_def get_default_def)
  have sp: "split_on CHR '':'' ''bad'' = [''bad'']"
    by code_simp
  have m: "duration_seconds (response_with_duration (JStr ''bad'')) = None"
    using T [THEN conjunct2, THEN conjunct2, THEN conjunct2, THEN conjunct2, THEN conjunct2,
        THEN conjunct2, THEN conjunct2, THEN conjunct2, THEN conjunct2, THEN conjunct2] sp
    by (simp add: response_with_duration_def get_def get_default_def)
  from run [THEN conjunct1] run [THEN conjunct2] printed w m show ?thesis
    by (intro conjI)
qed

subsection \<open>The score of an answer\<close>

text \<open>
  Rounding a rational to an integer, and the double nearest to a rational of moderate
  size: it lies within 1/8 of it, so that rounding the double of a third of an integer
  gives the integer nearest to that third.
\<close>

lemma rhe_floor:
  assumes "\<lfloor>y\<rfloor> = f"
  shows "round_half_even y =
     (if y - of_int f < 1 / 2 then f else if 1 / 2 < y - of_int f then f + 1
      else if even f then f else f + 1)"
  using assms by (simp add: round_half_even_def Let_def)

lemma round_half_even_near:
  assumes "\<bar>y - of_int k\<bar> < 1 / 2"
  shows "round_half_even y = k"
proof (cases "of_int k \<le> y")
  case True
  with assms have "of_int k \<le> y" "y < of_int k + 1" by linarith+
  then have "\<lfloor>y\<rfloor> = k" by (rule floor_unique)
  with assms True show ?thesis by (simp add: round_half_even_def Let_def)
next
  case False
  with assms have "of_int (k - 1) \<le> y" "y < of_int (k - 1) + 1" by simp_all
  then have fl: "\<lfloor>y\<rfloor> = k - 1" by (rule floor_unique)
  from assms False have "1 / 2 < y - of_int (k - 1)" by simp
  with fl show ?thesis by (simp add: round_half_even_def Let_def)
qed

lemma round_half_even_error: "\<bar>of_int (round_half_even y) - y\<bar> \<le> 1 / 2"
proof -
  have "of_int \<lfloor>y\<rfloor> \<le> y" "y < of_int \<lfloor>y\<rfloor> + 1" by linarith+
  then show ?thesis
    unfolding round_half_even_def Let_def by (simp split: if_splits)
qed

lemma ilog2_lower_ge1:
  assumes "1 \<le> x"
  shows "2 powi (ilog2 x) \<le> x"
proof -
  define k where "k = floorlog 2 (nat \<lfloor>x\<rfloor>)"
  from assms have pos: "0 < nat \<lfloor>x\<rfloor>" by simp
  have two: "(1::nat) < 2" by simp
  have "(2::nat) ^ (k - 1) \<le> nat \<lfloor>x\<rfloor>"
    unfolding k_def using floorlog_bounds [OF pos two] by (rule conjunct1)
  then have "(of_nat (2 ^ (k - 1)) :: rat) \<le> of_nat (nat \<lfloor>x\<rfloor>)"
    by (rule of_nat_mono)
  also have "\<dots> = of_int \<lfloor>x\<rfloor>" using assms by simp
  also have "\<dots> \<le> x" by simp
  finally have le: "(2::rat) ^ (k - 1) \<le> x" by simp
  have "k \<noteq> 0"
    unfolding k_def using pos by (simp add: floorlog_eq_zero_iff)
  then have "int k - 1 = int (k - 1)" by simp
  then have "ilog2 x = int (k - 1)"
    using assms by (simp only: ilog2_def k_def if_True)
  then have "(2::rat) powi (ilog2 x) = 2 ^ (k - 1)"
    by (simp only: power_int_of_nat)
  with le show ?thesis by (simp only:)
qed

lemma ilog2_lower_lt1:
  assumes "0 < x" "x < 1"
  shows "2 powi (ilog2 x) \<le> x"
proof -
  from assms have inv: "1 < 1 / x" by simp
  define m where "m = nat (\<lceil>1 / x\<rceil> - 1)"
  define k where "k = floorlog 2 m"
  have up1: "1 / x \<le> of_int \<lceil>1 / x\<rceil>" by (rule le_of_int_ceiling)
  with inv have "(1::rat) < of_int \<lceil>1 / x\<rceil>" by (rule less_le_trans)
  then have c2: "1 < \<lceil>1 / x\<rceil>" by (simp only: of_int_1_less_iff)
  then have nn: "0 \<le> \<lceil>1 / x\<rceil> - 1" by linarith
  have im: "int m = \<lceil>1 / x\<rceil> - 1"
    unfolding m_def using nn by (rule nat_0_le)
  with c2 have mpos: "0 < m" by linarith
  have two: "(1::nat) < 2" by simp
  have "m < 2 ^ k"
    unfolding k_def using floorlog_bounds [OF mpos two] by (rule conjunct2)
  then have "m + 1 \<le> 2 ^ k" by simp
  then have "(of_nat (m + 1) :: rat) \<le> of_nat (2 ^ k)"
    by (rule of_nat_mono)
  then have up: "(of_nat (m + 1) :: rat) \<le> 2 ^ k" by simp
  have "int (m + 1) = int m + 1" by simp
  with im have "int (m + 1) = \<lceil>1 / x\<rceil>" by linarith
  then have "(of_int (int (m + 1)) :: rat) = of_int \<lceil>1 / x\<rceil>" by (simp only:)
  then have "(of_nat (m + 1) :: rat) = of_int \<lceil>1 / x\<rceil>" by (simp only: of_int_of_nat_eq)
  with up1 up have "1 / x \<le> 2 ^ k" by linarith
  then have "1 \<le> 2 ^ k * x"
    using assms(1) by (simp only: pos_divide_le_eq)
  moreover have p: "(0::rat) < 2 ^ k" by simp
  ultimately have "1 / 2 ^ k \<le> x"
    by (simp only: pos_divide_le_eq mult.commute)
  then have le: "inverse ((2::rat) ^ k) \<le> x"
    by (simp only: inverse_eq_divide)
  have "\<not> 1 \<le> x" using assms(2) by simp
  then have "ilog2 x = - int k"
    unfolding ilog2_def k_def m_def by (simp only: if_False)
  then have "(2::rat) powi (ilog2 x) = inverse (2 ^ k)"
    by (simp only: power_int_minus power_int_of_nat)
  with le show ?thesis by (simp only:)
qed

lemma ilog2_lower: "0 < x \<Longrightarrow> 2 powi (ilog2 x) \<le> x"
  using ilog2_lower_ge1 [of x] ilog2_lower_lt1 [of x] by (cases "1 \<le> x") simp_all

lemma to_double_near:
  assumes "x \<noteq> 0" "\<bar>x\<bar> < 2 ^ 51"
  shows "\<exists>y. to_double x = Inr y \<and> \<bar>y - x\<bar> \<le> 1 / 8"
proof -
  define e where "e = max (ilog2 \<bar>x\<bar> - 52) (- 1074)"
  define y :: rat where "y = of_int (round_half_even (x / (2 powi e))) * (2 powi e)"
  have pe: "(0::rat) < 2 powi e" by (simp add: zero_less_power_int)
  from assms(1) have "0 < \<bar>x\<bar>" by simp
  then have "2 powi (ilog2 \<bar>x\<bar>) \<le> \<bar>x\<bar>" by (rule ilog2_lower)
  also have "\<bar>x\<bar> < 2 powi 51" using assms(2) by simp
  finally have "ilog2 \<bar>x\<bar> < 51"
    by (intro power_int_le_imp_less_exp [of "2::rat"]) simp_all
  then have "e \<le> - 2" unfolding e_def by simp
  then have "(2::rat) powi e \<le> 2 powi (- 2)"
    by (intro power_int_increasing) simp_all
  then have small: "(2::rat) powi e \<le> 1 / 4" by (simp add: power_int_minus)
  have "y - x = (of_int (round_half_even (x / (2 powi e))) - x / (2 powi e)) * (2 powi e)"
    using pe unfolding y_def by (simp add: field_simps)
  then have "\<bar>y - x\<bar> = \<bar>of_int (round_half_even (x / (2 powi e))) - x / (2 powi e)\<bar> * (2 powi e)"
    using pe by (simp add: abs_mult)
  also have "\<dots> \<le> (1 / 2) * (2 powi e)"
    using pe by (intro mult_right_mono round_half_even_error) simp
  also have "\<dots> \<le> (1 / 2) * (1 / 4)"
    using small by (intro mult_left_mono) simp_all
  finally have near: "\<bar>y - x\<bar> \<le> 1 / 8" by simp
  with assms(2) have "\<bar>y\<bar> < 2 ^ 51 + 1" by linarith
  also have "\<dots> < (2::rat) ^ 1024" by simp
  finally have "\<not> 2 ^ 1024 \<le> \<bar>y\<bar>" by simp
  with assms(1) have "to_double x = Inr y"
    unfolding to_double_def Let_def e_def [symmetric] y_def [symmetric] by (simp only: if_False)
  with near show ?thesis by blast
qed

lemma round_third:
  assumes "\<bar>y - of_int n / 3\<bar> \<le> 1 / 8"
  shows "round_half_even y = (n + 1) div 3"
proof -
  define k where "k = (n + 1) div 3"
  have "3 * k \<le> n + 1" "n + 1 < 3 * k + 3" unfolding k_def by presburger+
  then have "- 1 \<le> n - 3 * k" "n - 3 * k \<le> 1" by linarith+
  then have "(- 1 :: rat) \<le> of_int (n - 3 * k)" "(of_int (n - 3 * k) :: rat) \<le> 1"
    by (metis of_int_le_iff of_int_minus of_int_1)+
  then have "\<bar>(of_int n :: rat) / 3 - of_int k\<bar> \<le> 1 / 3"
    unfolding abs_le_iff by (simp add: field_simps)
  with assms have "\<bar>y - of_int k\<bar> < 1 / 2" by linarith
  then show ?thesis unfolding k_def by (rule round_half_even_near)
qed

lemma round_double_third:
  assumes "\<bar>n\<bar> < 3 * 2 ^ 51"
  shows "\<exists>y. to_double (of_int n / of_int 3) = Inr y \<and> round_half_even y = (n + 1) div 3"
proof (cases "n = 0")
  case True
  have "round_half_even 0 = 0" by (simp add: round_half_even_def)
  with True show ?thesis by (simp add: to_double_def)
next
  case False
  then have nz: "(of_int n :: rat) / of_int 3 \<noteq> 0" by simp
  from assms have "(of_int \<bar>n\<bar> :: rat) < of_int (3 * 2 ^ 51)" by (simp only: of_int_less_iff)
  then have "\<bar>(of_int n :: rat) / of_int 3\<bar> < 2 ^ 51" by simp
  with nz obtain y where y: "to_double (of_int n / of_int 3) = Inr y"
      "\<bar>y - of_int n / of_int 3\<bar> \<le> 1 / 8"
    using to_double_near by blast
  from y(2) have "round_half_even y = (n + 1) div 3"
    by (intro round_third) simp
  with y(1) show ?thesis by blast
qed

lemma with_score_ints:
  assumes "as_int (get_default ev ''technicalScore'' (JInt 0)) = Some t"
    and "as_int (get_default ev ''communicationScore'' (JInt 0)) = Some c"
    and "as_int (get_default ev ''relevanceScore'' (JInt 0)) = Some r"
    and "\<bar>t + c + r\<bar> < 3 * 2 ^ 51"
  shows "with_score ev = Inr (dict_set ''score'' (JInt ((t + c + r + 1) div 3)) ev)"
proof -
  from round_double_third [OF assms(4)] obtain y where
    y: "to_double (of_int (t + c + r) / of_int 3) = Inr y" "round_half_even y = (t + c + r + 1) div 3"
    by blast
  have "overall_q_score ev = Inr y"
    using assms(1-3) y(1) by (simp add: overall_q_score_def py_add_def py_truediv_def)
  with y(2) show ?thesis by (simp add: with_score_def)
qed

lemma nearest_third: "2 * \<bar>3 * ((n + 1) div 3) - n\<bar> < (3::int)"
  by presburger

text \<open>A score is computed only from sub-scores that are integers or booleans.\<close>

lemma with_score_sub_scores:
  assumes "with_score e = Inr e'"
  shows "\<exists>t c r. as_int (get_default e ''technicalScore'' (JInt 0)) = Some t
       \<and> as_int (get_default e ''communicationScore'' (JInt 0)) = Some c
       \<and> as_int (get_default e ''relevanceScore'' (JInt 0)) = Some r"
proof -
  from assms obtain s2 y where
    s2: "(case py_add (get_default e ''technicalScore'' (JInt 0))
                     (get_default e ''communicationScore'' (JInt 0)) of
           Inl x \<Rightarrow> Inl x
         | Inr s1 \<Rightarrow> py_add s1 (get_default e ''relevanceScore'' (JInt 0))) = Inr s2"
    and y: "py_truediv s2 3 = Inr y"
    by (auto simp: with_score_def overall_q_score_def split: sum.splits)
  from y obtain n where n: "as_int s2 = Some n"
    by (auto simp: py_truediv_def split: option.splits)
  from s2 obtain s1 where
    s1: "py_add (get_default e ''technicalScore'' (JInt 0))
                (get_default e ''communicationScore'' (JInt 0)) = Inr s1"
    and s12: "py_add s1 (get_default e ''relevanceScore'' (JInt 0)) = Inr s2"
    by (auto split: sum.splits)
  from s12 n have "\<exists>x r. as_int s1 = Some x \<and> as_int (get_default e ''relevanceScore'' (JInt 0)) = Some r"
    by (auto simp: py_add_def split: option.splits json.splits)
  moreover from this s1
  have "\<exists>t c. as_int (get_default e ''technicalScore'' (JInt 0)) = Some t
       \<and> as_int (get_default e ''communicationScore'' (JInt 0)) = Some c"
    by (auto simp: py_add_def split: option.splits json.splits)
  ultimately show ?thesis by blast
qed


lemma submit_answer_ok:
  assumes "session_id_header req = Some sid" "sid \<noteq> []" "sessions sid = Some s"
  shows "reply (submit_answer loads model req sessions) = Reply 200 b \<longrightarrow>
     (\<exists>data q ai_text n ev ev'.
         request_data req = JDict data
       \<and> generate_content_with_gemini loads model 3 = (Some ai_text, n)
       \<and> loads_extracted loads ai_text = Inr (JDict ev)
       \<and> with_score ev = Inr ev'
       \<and> b = AnswerOk (JDict ev')
       \<and> store (submit_answer loads model req sessions)
           = sessions(sid \<mapsto> s\<lparr>interview_responses := interview_responses s @
                [response_record (get data ''question_id'') q (get data ''response_text'') data ev']\<rparr>))"
proof -
  have look: "lookup_session (session_id_header req) sessions = Some (sid, s)"
    using assms by (simp add: lookup_session_Some)
  show ?thesis
    unfolding submit_answer_def Let_def look evaluate_answer_def
    by (simp split: sum.split prod.split option.split json.split) blast
qed

lemma submit_answer_accepts:
  assumes "session_id_header req = Some sid" "sid \<noteq> []" "sessions sid = Some s"
    and "request_data req = JDict data"
    and "truthy (get data ''question_id'')" "truthy (get data ''response_text'')"
    and "py_iter (interview_questions s) = Inr qs"
    and "find_question (get data ''question_id'') qs = Inr (Some q)"
    and "generate_content_with_gemini loads model 3 = (Some answer, calls)"
    and "loads_extracted loads answer = Inr (JDict e)"
    and "with_score e = Inr e'"
  shows "submit_answer loads model req sessions
       = finish (Reply 200 (AnswerOk (JDict e')))
           (sessions(sid \<mapsto> s\<lparr>interview_responses := interview_responses s @
               [response_record (get data ''question_id'') q (get data ''response_text'') data e']\<rparr>))
           calls"
proof -
  have look: "lookup_session (session_id_header req) sessions = Some (sid, s)"
    using assms(1-3) by (simp add: lookup_session_Some)
  from assms(10) have ne: "answer \<noteq> []"
    by (auto simp: loads_extracted_def extract_json_from_gemini_response_def)
  have found: "truthy q"
    using assms(8) assms(5)
    by (induction qs) (auto simp: get_def get_default_def split: json.splits if_splits)
  show ?thesis
    unfolding submit_answer_def Let_def look evaluate_answer_def
    using assms(4-11) ne found by simp
qed

text \<open>
  Claim C5, as the code has it.  Answer submission answers 200 exactly along one path:
  the model's answer, unwrapped, parses to a JSON object, and the score computed from
  that object is written into it under \<open>score\<close>; the object with its score is the
  evaluation in the reply and in the response record appended to the session.  When
  each of the three sub-scores is an integer (a boolean counts as 0 or 1, a missing one
  as 0) and their sum lies within \<open>3 * 2 ^ 51\<close> of zero, the score is the integer nearest
  to a third of the sum; no score is computed from a sub-score of another kind.  The
  quotient is taken in binary64: for larger sums the double may lie on the other side
  of a half, see the counterexample below.
\<close>

theorem score_is_rounded_mean:
  assumes "session_id_header req = Some sid" "sid \<noteq> []" "sessions sid = Some s"
  shows
    "(reply (submit_answer loads model req sessions) = Reply 200 b \<longrightarrow>
       (\<exists>data' q' ai_text n ev ev'.
           request_data req = JDict data'
         \<and> generate_content_with_gemini loads model 3 = (Some ai_text, n)
         \<and> loads_extracted loads ai_text = Inr (JDict ev)
         \<and> with_score ev = Inr ev'
         \<and> b = AnswerOk (JDict ev')
         \<and> store (submit_answer loads model req sessions)
             = sessions(sid \<mapsto> s\<lparr>interview_responses := interview_responses s @
                  [response_record (get data' ''question_id'') q' (get data' ''response_text'')
                     data' ev']\<rparr>)))
     \<and> (request_data req = JDict data
          \<and> truthy (get data ''question_id'') \<and> truthy (get data ''response_text'')
          \<and> py_iter (interview_questions s) = Inr qs
          \<and> find_question (get data ''question_id'') qs = Inr (Some q)
          \<and> generate_content_with_gemini loads model 3 = (Some answer, calls)
          \<and> loads_extracted loads answer = Inr (JDict e)
          \<and> as_int (get_default e ''technicalScore'' (JInt 0)) = Some t
          \<and> as_int (get_default e ''communicationScore'' (JInt 0)) = Some c
          \<and> as_int (get_default e ''relevanceScore'' (JInt 0)) = Some r
          \<and> \<bar>t + c + r\<bar> < 3 * 2 ^ 51
        \<longrightarrow> reply (submit_answer loads model req sessions)
              = Reply 200 (AnswerOk (JDict (dict_set ''score'' (JInt ((t + c + r + 1) div 3)) e)))
          \<and> store (submit_answer loads model req sessions)
              = sessions(sid \<mapsto> s\<lparr>interview_responses := interview_responses s @
                  [response_record (get data ''question_id'') q (get data ''response_text'') data
                     (dict_set ''score'' (JInt ((t + c + r + 1) div 3)) e)]\<rparr>))
     \<and> (as_int (get_default e ''technicalScore'' (JInt 0)) = Some t
          \<and> as_int (get_default e ''communicationScore'' (JInt 0)) = Some c
          \<and> as_int (get_default e ''relevanceScore'' (JInt 0)) = Some r
          \<and> \<bar>t + c + r\<bar> < 3 * 2 ^ 51
        \<longrightarrow> with_score e = Inr (dict_set ''score'' (JInt ((t + c + r + 1) div 3)) e)
          \<and> 2 * \<bar>3 * ((t + c + r + 1) div 3) - (t + c + r)\<bar> < 3)
     \<and> (map_of e k = None \<longrightarrow> as_int (get_default e k (JInt 0)) = Some 0)
     \<and> (with_score e = Inr e' \<longrightarrow>
          (\<exists>t' c' r'. as_int (get_default e ''technicalScore'' (JInt 0)) = Some t'
             \<and> as_int (get_default e ''communicationScore'' (JInt 0)) = Some c'
             \<and> as_int (get_default e ''relevanceScore'' (JInt 0)) = Some r'))"
proof (intro conjI impI)
  assume "reply (submit_answer loads model req sessions) = Reply 200 b"
  with submit_answer_ok [where sessions = sessions and sid = sid and s = s and req = req
      and loads = loads and model = model and b = b, OF assms]
  show "\<exists>data' q' ai_text n ev ev'.
           request_data req = JDict data'
         \<and> generate_content_with_gemini loads model 3 = (Some ai_text, n)
         \<and> loads_extracted loads ai_text = Inr (JDict ev)
         \<and> with_score ev = Inr ev'
         \<and> b = AnswerOk (JDict ev')
         \<and> store (submit_answer loads model req sessions)
             = sessions(sid \<mapsto> s\<lparr>interview_responses := interview_responses s @
                  [response_record (get data' ''question_id'') q' (get data' ''response_text'')
                     data' ev']\<rparr>)"
    by (rule mp)
next
  assume h: "request_data req = JDict data
          \<and> truthy (get data ''question_id'') \<and> truthy (get data ''response_text'')
          \<and> py_iter (interview_questions s) = Inr qs
          \<and> find_question (get data ''question_id'') qs = Inr (Some q)
          \<and> generate_content_with_gemini loads model 3 = (Some answer, calls)
          \<and> loads_extracted loads answer = Inr (JDict e)
          \<and> as_int (get_default e ''technicalScore'' (JInt 0)) = Some t
          \<and> as_int (get_default e ''communicationScore'' (JInt 0)) = Some c
          \<and> as_int (get_default e ''relevanceScore'' (JInt 0)) = Some r
          \<and> \<bar>t + c + r\<bar> < 3 * 2 ^ 51"
  then have sc: "with_score e = Inr (dict_set ''score'' (JInt ((t + c + r + 1) div 3)) e)"
    by (intro with_score_ints) blast+
  from h have run: "submit_answer loads model req sessions
       = finish (Reply 200 (AnswerOk (JDict (dict_set ''score'' (JInt ((t + c + r + 1) div 3)) e))))
           (sessions(sid \<mapsto> s\<lparr>interview_responses := interview_responses s @
               [response_record (get data ''question_id'') q (get data ''response_text'') data
                  (dict_set ''score'' (JInt ((t + c + r + 1) div 3)) e)]\<rparr>))
           calls"
    by (intro submit_answer_accepts [where sessions = sessions and sid = sid and s = s and req = req,
          OF assms _ _ _ _ _ _ _ sc]) blast+
  show "reply (submit_answer loads model req sessions)
          = Reply 200 (AnswerOk (JDict (dict_set ''score'' (JInt ((t + c + r + 1) div 3)) e)))"
    unfolding run by simp
  show "store (submit_answer loads model req sessions)
          = sessions(sid \<mapsto> s\<lparr>interview_responses := interview_responses s @
              [response_record (get data ''question_id'') q (get data ''response_text'') data
                 (dict_set ''score'' (JInt ((t + c + r + 1) div 3)) e)]\<rparr>)"
    unfolding run by simp
next
  assume "as_int (get_default e ''technicalScore'' (JInt 0)) = Some t
          \<and> as_int (get_default e ''communicationScore'' (JInt 0)) = Some c
          \<and> as_int (get_default e ''relevanceScore'' (JInt 0)) = Some r
          \<and> \<bar>t + c + r\<bar> < 3 * 2 ^ 51"
  then show "with_score e = Inr (dict_set ''score'' (JInt ((t + c + r + 1) div 3)) e)"
    by (intro with_score_ints) blast+
next
  show "2 * \<bar>3 * ((t + c + r + 1) div 3) - (t + c + r)\<bar> < 3"
    by (rule nearest_third)
next
  assume "map_of e k = None"
  then show "as_int (get_default e k (JInt 0)) = Some 0"
    by (simp add: get_default_def)
next
  assume "with_score e = Inr e'"
  then show "\<exists>t' c' r'. as_int (get_default e ''technicalScore'' (JInt 0)) = Some t'
             \<and> as_int (get_default e ''communicationScore'' (JInt 0)) = Some c'
             \<and> as_int (get_default e ''relevanceScore'' (JInt 0)) = Some r'"
    by (rule with_score_sub_scores)
qed

theorem score_is_rounded_mean_witness:
  "reply (submit_answer loads_evaluation model_evaluation
       \<lparr>session_id_header = Some ''s1'',
        json_body = Some (JDict [(''question_id'', JStr ''q1''), (''response_text'', JStr ''Because.''),
                                 (''duration'', JStr ''1:30'')])\<rparr>
       [''s1'' \<mapsto> new_session\<lparr>interview_questions :=
          JList [JDict [(''id'', JStr ''q1''), (''question'', JStr ''Why?'')]]\<rparr>])
     = Reply 200 (AnswerOk (JDict [(''technicalScore'', JInt 80), (''communicationScore'', JInt 70),
                                   (''relevanceScore'', JInt 90), (''feedback'', JStr ''ok''),
                                   (''score'', JInt 80)]))
   \<and> store (submit_answer loads_evaluation model_evaluation
       \<lparr>session_id_header = Some ''s1'',
        json_body = Some (JDict [(''question_id'', JStr ''q1''), (''response_text'', JStr ''Because.''),
                                 (''duration'', JStr ''1:30'')])\<rparr>
       [''s1'' \<mapsto> new_session\<lparr>interview_questions :=
          JList [JDict [(''id'', JStr ''q1''), (''question'', JStr ''Why?'')]]\<rparr>])
     = [''s1'' \<mapsto> new_session\<lparr>interview_questions :=
          JList [JDict [(''id'', JStr ''q1''), (''question'', JStr ''Why?'')]],
          interview_responses := [response_with_duration (JStr ''1:30'')]\<rparr>]
   \<and> with_score [(''technicalScore'', JInt 80), (''communicationScore'', JBool True)]
     = Inr [(''technicalScore'', JInt 80), (''communicationScore'', JBool True), (''score'', JInt 27)]"
proof -
  let ?q = "JDict [(''id'', JStr ''q1''), (''question'', JStr ''Why?'')]"
  let ?s = "new_session\<lparr>interview_questions := JList [?q]\<rparr>"
  let ?data = "[(''question_id'', JStr ''q1''), (''response_text'', JStr ''Because.''),
                (''duration'', JStr ''1:30'')]"
  let ?req = "\<lparr>session_id_header = Some ''s1'', json_body = Some (JDict ?data)\<rparr>"
  let ?e = "[(''technicalScore'', JInt 80), (''communicationScore'', JInt 70),
             (''relevanceScore'', JInt 90), (''feedback'', JStr ''ok'')]"
  let ?e' = "[(''technicalScore'', JInt 80), (''communicationScore'', JInt 70),
             (''relevanceScore'', JInt 90), (''feedback'', JStr ''ok''), (''score'', JInt 80)]"
  let ?p = "[(''technicalScore'', JInt 80), (''communicationScore'', JBool True)]"
  have h: "session_id_header ?req = Some ''s1''" "''s1'' \<noteq> []" "[''s1'' \<mapsto> ?s] ''s1'' = Some ?s"
    by simp_all
  have gen: "generate_content_with_gemini loads_evaluation model_evaluation 3 = (Some ''E'', 1)"
    using gemini_loop_succeeds [of model_evaluation 0 "''E''" loads_evaluation 3]
    by (simp add: generate_content_with_gemini_def model_evaluation_def loads_evaluation_def)
  have ext: "loads_extracted loads_evaluation ''E'' = Inr (JDict ?e)"
    by code_simp
  have hyp: "request_data ?req = JDict ?data
          \<and> truthy (get ?data ''question_id'') \<and> truthy (get ?data ''response_text'')
          \<and> py_iter (interview_questions ?s) = Inr [?q]
          \<and> find_question (get ?data ''question_id'') [?q] = Inr (Some ?q)
          \<and> generate_content_with_gemini loads_evaluation model_evaluation 3 = (Some ''E'', 1)
          \<and> loads_extracted loads_evaluation ''E'' = Inr (JDict ?e)
          \<and> as_int (get_default ?e ''technicalScore'' (JInt 0)) = Some 80
          \<and> as_int (get_default ?e ''communicationScore'' (JInt 0)) = Some 70
          \<and> as_int (get_default ?e ''relevanceScore'' (JInt 0)) = Some 90
          \<and> \<bar>80 + 70 + 90\<bar> < (3 * 2 ^ 51 :: int)"
    using gen ext by (simp add: request_data_def get_def get_default_def py_iter_def)
  have sc: "dict_set ''score'' (JInt ((80 + 70 + 90 + 1) div 3)) ?e = ?e'"
    by simp
  have rec: "interview_responses ?s @
       [response_record (get ?data ''question_id'') ?q (get ?data ''response_text'') ?data ?e']
       = [response_with_duration (JStr ''1:30'')]"
    by (simp add: response_record_def response_with_duration_def get_def get_default_def
        new_session_def)
  note T = score_is_rounded_mean
      [where req = "?req" and sid = "''s1''" and sessions = "[''s1'' \<mapsto> ?s]" and s = "?s"
         and loads = loads_evaluation and model = model_evaluation and data = "?data"
         and qs = "[?q]" and q = "?q" and answer = "''E''" and calls = 1 and e = "?e"
         and t = 80 and c = 70 and r = 90, OF h]
  note run = T [THEN conjunct2, THEN conjunct1, THEN mp, OF hyp, unfolded sc rec fun_upd_upd]
  have part: "as_int (get_default ?p ''technicalScore'' (JInt 0)) = Some 80
          \<and> as_int (get_default ?p ''communicationScore'' (JInt 0)) = Some 1
          \<and> as_int (get_default ?p ''relevanceScore'' (JInt 0)) = Some 0
          \<and> \<bar>80 + 1 + 0\<bar> < (3 * 2 ^ 51 :: int)"
    by (simp add: get_default_def)
  have sp: "dict_set ''score'' (JInt ((80 + 1 + 0 + 1) div 3)) ?p
      = [(''technicalScore'', JInt 80), (''communicationScore'', JBool True), (''score'', JInt 27)]"
    by simp
  note P = score_is_rounded_mean
      [where req = "?req" and sid = "''s1''" and sessions = "[''s1'' \<mapsto> ?s]" and s = "?s"
         and e = "?p" and t = 80 and c = 1 and r = 0, OF h,
       THEN conjunct2, THEN conjunct2, THEN conjunct1, THEN mp, OF part, THEN conjunct1,
       unfolded sp]
  from run [THEN conjunct1] run [THEN conjunct2] P show ?thesis
    by (intro conjI)
qed

text \<open>
  Claim C5 as stated, for every evaluation object, fails.  The model answers the single
  sub-score 6755399441055748.  A third of it is 2251799813685249 and a third, whose
  nearest integer is 2251799813685249; the double nearest to the quotient is
  2251799813685249.5, which \<open>round\<close> takes to the even 2251799813685250, and that is
  the score in the reply.
\<close>

theorem score_double_rounding_counterexample:
  "reply (submit_answer (loads_profile (JDict [(''technicalScore'', JInt 6755399441055748)]))
       model_profile
       \<lparr>session_id_header = Some ''s1'',
        json_body = Some (JDict [(''question_id'', JStr ''q1''), (''response_text'', JStr ''Because.'')])\<rparr>
       [''s1'' \<mapsto> new_session\<lparr>interview_questions :=
          JList [JDict [(''id'', JStr ''q1''), (''question'', JStr ''Why?'')]]\<rparr>])
     = Reply 200 (AnswerOk (JDict [(''technicalScore'', JInt 6755399441055748),
                                   (''score'', JInt 2251799813685250)]))
   \<and> 2 * \<bar>3 * 2251799813685249 - 6755399441055748\<bar> < (3::int)
   \<and> \<not> 2 * \<bar>3 * 2251799813685250 - 6755399441055748\<bar> < (3::int)"
proof -
  let ?q = "JDict [(''id'', JStr ''q1''), (''question'', JStr ''Why?'')]"
  let ?s = "new_session\<lparr>interview_questions := JList [?q]\<rparr>"
  let ?data = "[(''question_id'', JStr ''q1''), (''response_text'', JStr ''Because.'')]"
  let ?req = "\<lparr>session_id_header = Some ''s1'', json_body = Some (JDict ?data)\<rparr>"
  let ?e = "[(''technicalScore'', JInt 6755399441055748)]"
  let ?loads = "loads_profile (JDict ?e)"
  have fl: "floorlog 2 2251799813685249 = 52"
    by (intro antisym floorlog_leI floorlog_geI) simp_all
  have f0: "\<lfloor>6755399441055748 / 3 :: rat\<rfloor> = 2251799813685249"
    by (intro floor_unique) simp_all
  have il: "ilog2 (6755399441055748 / 3) = 51"
    by (simp add: ilog2_def f0 fl)
  have f1: "\<lfloor>13510798882111496 / 3 :: rat\<rfloor> = 4503599627370498"
    by (intro floor_unique) simp_all
  have r1: "round_half_even (13510798882111496 / 3) = 4503599627370499"
    by (simp add: rhe_floor [OF f1])
  have f2: "\<lfloor>4503599627370499 / 2 :: rat\<rfloor> = 2251799813685249"
    by (intro floor_unique) simp_all
  have r2: "round_half_even (4503599627370499 / 2) = 2251799813685250"
    by (simp add: rhe_floor [OF f2])
  have td: "to_double (6755399441055748 / 3) = Inr (4503599627370499 / 2)"
    by (simp add: to_double_def Let_def il power_int_minus r1)
  have sc: "with_score ?e = Inr [(''technicalScore'', JInt 6755399441055748),
                                 (''score'', JInt 2251799813685250)]"
    by (simp add: with_score_def overall_q_score_def py_add_def py_truediv_def get_default_def td r2)
  have gen: "generate_content_with_gemini ?loads model_profile 3 = (Some ''P'', 1)"
    using gemini_loop_succeeds [of model_profile 0 "''P''" "?loads" 3]
    by (simp add: generate_content_with_gemini_def model_profile_def loads_profile_def)
  have ext: "loads_extracted ?loads ''P'' = Inr (JDict ?e)"
    by code_simp
  have "submit_answer ?loads model_profile ?req [''s1'' \<mapsto> ?s]
       = finish (Reply 200 (AnswerOk (JDict [(''technicalScore'', JInt 6755399441055748),
                                             (''score'', JInt 2251799813685250)])))
           ([''s1'' \<mapsto> ?s, ''s1'' \<mapsto> ?s\<lparr>interview_responses := interview_responses ?s @
               [response_record (get ?data ''question_id'') ?q (get ?data ''response_text'') ?data
                  [(''technicalScore'', JInt 6755399441055748),
                   (''score'', JInt 2251799813685250)]]\<rparr>])
           1"
    by (rule submit_answer_accepts [where sid = "''s1''" and s = "?s" and data = "?data"
          and qs = "[?q]" and e = "?e", OF _ _ _ _ _ _ _ _ gen ext sc])
       (simp_all add: request_data_def get_def get_default_def py_iter_def)
  then show ?thesis
    by simp
qed

end
